theory Spec2Isabelle
  imports Complex_Main "HOL-Library.Word"
begin

unbundle bit_operations_syntax

section \<open>Values\<close>

text \<open>
  The two scripts, \<^verbatim>\<open>generateResponse-gemini.py\<close> and \<^verbatim>\<open>generateResponse.py\<close>, build
  a request body out of Python dict and list literals, hand it to \<^verbatim>\<open>json.dumps\<close>, and
  walk the parsed JSON answer.  Both sides are trees of JSON-representable Python
  values.  A dict is an association list in insertion order.  Python's \<^verbatim>\<open>int\<close> is
  unbounded, hence \<open>int\<close>.  The only floats of the program are the two literals
  \<^verbatim>\<open>1.0\<close> and \<^verbatim>\<open>0.95\<close> and values that the caller passes through unchanged; no
  float arithmetic is ever performed, so they are carried as \<open>real\<close>.  A \<open>char\<close> stands
  for one character of a Python \<^verbatim>\<open>str\<close>.
\<close>

datatype json =
    JNull
  | JBool bool
  | JInt int
  | JFloat real
  | JStr string
  | JArr "json list"
  | JObj "(string \<times> json) list"

type_synonym byte = "8 word"

datatype py_error =
    TypeError
  | KeyError
  | ValueError
  | AttributeError
  | OSError
  | Base64Error
  | JSONDecodeError
  | ConnectionError
  | HTTPError int
  | SystemExit int

text \<open>Truth value testing, as performed by \<^verbatim>\<open>if x:\<close>, \<^verbatim>\<open>not x\<close> and \<^verbatim>\<open>x or y\<close>.\<close>

fun py_truthy :: "json \<Rightarrow> bool" where
  "py_truthy JNull = False"
| "py_truthy (JBool b) = b"
| "py_truthy (JInt i) = (i \<noteq> 0)"
| "py_truthy (JFloat x) = (x \<noteq> 0)"
| "py_truthy (JStr s) = (s \<noteq> [])"
| "py_truthy (JArr xs) = (xs \<noteq> [])"
| "py_truthy (JObj kvs) = (kvs \<noteq> [])"

text \<open>\<^verbatim>\<open>d[k] = v\<close> on a dict: an existing key keeps its place, a new one goes last.\<close>

fun dict_set :: "(string \<times> json) list \<Rightarrow> string \<Rightarrow> json \<Rightarrow> (string \<times> json) list" where
  "dict_set [] k v = [(k, v)]"
| "dict_set ((k', v') # kvs) k v =
     (if k' = k then (k, v) # kvs else (k', v') # dict_set kvs k v)"

text \<open>\<^verbatim>\<open>x[k]\<close> with a string key \<open>k\<close>: only a dict can be subscripted by a string.\<close>

fun py_getitem :: "json \<Rightarrow> string \<Rightarrow> py_error + json" where
  "py_getitem (JObj kvs) k = (case map_of kvs k of None \<Rightarrow> Inl KeyError | Some v \<Rightarrow> Inr v)"
| "py_getitem _ k = Inl TypeError"

text \<open>\<^verbatim>\<open>s in t\<close> on two strings is the substring test.\<close>

fun py_startswith :: "string \<Rightarrow> string \<Rightarrow> bool" where
  "py_startswith t [] = True"
| "py_startswith [] (c # s) = False"
| "py_startswith (d # t) (c # s) = (d = c \<and> py_startswith t s)"

fun py_substring :: "string \<Rightarrow> string \<Rightarrow> bool" where
  "py_substring s [] = (s = [])"
| "py_substring s (d # t) = (py_startswith (d # t) s \<or> py_substring s t)"

text \<open>
  \<^verbatim>\<open>k in x\<close> with a string \<open>k\<close>: key membership on a dict, element membership on a
  list, the substring test on a string, and a \<^verbatim>\<open>TypeError\<close> on anything else.
\<close>

fun py_in :: "string \<Rightarrow> json \<Rightarrow> py_error + bool" where
  "py_in k (JObj kvs) = Inr (k \<in> set (map fst kvs))"
| "py_in k (JArr xs) = Inr (JStr k \<in> set xs)"
| "py_in k (JStr s) = Inr (py_substring k s)"
| "py_in k _ = Inl TypeError"

text \<open>Iteration, as by \<^verbatim>\<open>for\<close> and \<^verbatim>\<open>enumerate\<close>: a dict yields its keys, a string its characters.\<close>

fun py_iter :: "json \<Rightarrow> py_error + json list" where
  "py_iter (JArr xs) = Inr xs"
| "py_iter (JObj kvs) = Inr (map (\<lambda>kv. JStr (fst kv)) kvs)"
| "py_iter (JStr s) = Inr (map (\<lambda>c. JStr [c]) s)"
| "py_iter _ = Inl TypeError"

text \<open>Decimal rendering of an integer inside an f-string.\<close>

fun str_nat :: "nat \<Rightarrow> string" where
  "str_nat n =
     (if n < 10 then [char_of (48 + n)]
      else str_nat (n div 10) @ [char_of (48 + n mod 10)])"

definition str_int :: "int \<Rightarrow> string" where
  "str_int i = (if i < 0 then CHR ''-'' # str_nat (nat (- i)) else str_nat (nat i))"

text \<open>
  Reading a value along a path of keys and list positions; \<open>None\<close> when the path
  leaves the value.  This is the notation \<^verbatim>\<open>contents[0].parts[0].text\<close> of the
  specification; the program itself does not use it.
\<close>

datatype sel = K string | I nat

fun jpath :: "json \<Rightarrow> sel list \<Rightarrow> json option" where
  "jpath v [] = Some v"
| "jpath (JObj kvs) (K k # p) = (case map_of kvs k of None \<Rightarrow> None | Some v \<Rightarrow> jpath v p)"
| "jpath (JArr xs) (I i # p) = (if i < length xs then jpath (xs ! i) p else None)"
| "jpath _ (_ # p) = None"

section \<open>Calling \<^verbatim>\<open>call_gemini_api\<close>\<close>

text \<open>
  A call supplies some of the parameters; a parameter that is not supplied takes the
  default of the signature, and a missing parameter without default, like an argument
  the signature does not know, is a \<^verbatim>\<open>TypeError\<close>.  \<open>call_args\<close> are the arguments of a
  call (\<open>None\<close>: not supplied), \<open>params\<close> the local variables after binding.
  The signature of \<^verbatim>\<open>generateResponse-gemini.py\<close> extends the one of
  \<^verbatim>\<open>generateResponse.py\<close> by \<^verbatim>\<open>gemini_inline_data\<close> and \<^verbatim>\<open>gemini_api_version\<close>.
\<close>

record call_args =
  arg_api_key :: "string option"
  arg_user_prompt :: "string option"
  arg_max_tokens :: "int option"
  arg_system_instruction :: "json option"
  arg_inline_data :: "json option"
  arg_temperature :: "real option"
  arg_top_p :: "real option"
  arg_top_k :: "int option"
  arg_candidate_count :: "int option"
  arg_safety_threshold :: "string option"
  arg_api_version :: "string option"
  arg_model :: "string option"

record params =
  api_key :: string
  gemini_user_prompt :: string
  gemini_system_instruction :: json
  gemini_max_tokens :: int
  gemini_temperature :: real
  gemini_top_p :: real
  gemini_top_k :: int
  gemini_candidate_count :: int
  gemini_safety_threshold :: string
  model :: string

record gemini_params = params +
  gemini_inline_data :: json
  gemini_api_version :: string

definition dflt :: "'a \<Rightarrow> 'a option \<Rightarrow> 'a" where
  "dflt d x = (case x of None \<Rightarrow> d | Some v \<Rightarrow> v)"

text \<open>The signature of \<^verbatim>\<open>generateResponse.py\<close>, lines 5 to 16.\<close>

definition bind_plain :: "call_args \<Rightarrow> py_error + params" where
  "bind_plain a =
     (case (arg_api_key a, arg_user_prompt a) of
        (Some k, Some p) \<Rightarrow>
          if arg_inline_data a \<noteq> None \<or> arg_api_version a \<noteq> None then Inl TypeError
          else Inr \<lparr> api_key = k,
                     gemini_user_prompt = p,
                     gemini_system_instruction = dflt JNull (arg_system_instruction a),
                     gemini_max_tokens = dflt 8192 (arg_max_tokens a),
                     gemini_temperature = dflt 1.0 (arg_temperature a),
                     gemini_top_p = dflt 0.95 (arg_top_p a),
                     gemini_top_k = dflt 40 (arg_top_k a),
                     gemini_candidate_count = dflt 1 (arg_candidate_count a),
                     gemini_safety_threshold = dflt ''BLOCK_ONLY_HIGH'' (arg_safety_threshold a),
                     model = dflt ''gemini-3-pro-preview'' (arg_model a) \<rparr>
      | _ \<Rightarrow> Inl TypeError)"

text \<open>The signature of \<^verbatim>\<open>generateResponse-gemini.py\<close>, lines 9 to 22.\<close>

definition bind_gemini :: "call_args \<Rightarrow> py_error + gemini_params" where
  "bind_gemini a =
     (case (arg_api_key a, arg_user_prompt a, arg_max_tokens a) of
        (Some k, Some p, Some n) \<Rightarrow>
          Inr \<lparr> api_key = k,
                gemini_user_prompt = p,
                gemini_system_instruction = dflt JNull (arg_system_instruction a),
                gemini_max_tokens = n,
                gemini_temperature = dflt 1.0 (arg_temperature a),
                gemini_top_p = dflt 0.95 (arg_top_p a),
                gemini_top_k = dflt 40 (arg_top_k a),
                gemini_candidate_count = dflt 1 (arg_candidate_count a),
                gemini_safety_threshold = dflt ''BLOCK_ONLY_HIGH'' (arg_safety_threshold a),
                model = dflt ''gemini-2.5-pro'' (arg_model a),
                gemini_inline_data = dflt JNull (arg_inline_data a),
                gemini_api_version = dflt ''v1beta'' (arg_api_version a) \<rparr>
      | _ \<Rightarrow> Inl TypeError)"

section \<open>The request\<close>

text \<open>\<^verbatim>\<open>generateResponse.py\<close>, lines 35 to 61.\<close>

definition url_plain :: "'a params_scheme \<Rightarrow> string" where
  "url_plain p =
     ''https://generativelanguage.googleapis.com/v1beta/models/'' @ model p
       @ '':generateContent?key='' @ api_key p"

definition payload_plain :: "'a params_scheme \<Rightarrow> json" where
  "payload_plain p =
     (let payload =
        [(''contents'',
            JArr [JObj [(''parts'', JArr [JObj [(''text'', JStr (gemini_user_prompt p))]])]]),
         (''generationConfig'',
            JObj [(''maxOutputTokens'', JInt (gemini_max_tokens p)),
                  (''temperature'', JFloat (gemini_temperature p)),
                  (''topP'', JFloat (gemini_top_p p)),
                  (''topK'', JInt (gemini_top_k p)),
                  (''candidateCount'', JInt (gemini_candidate_count p))]),
         (''safetySettings'',
            JArr [JObj [(''category'', JStr ''HARM_CATEGORY_HATE_SPEECH''),
                        (''threshold'', JStr (gemini_safety_threshold p))],
                  JObj [(''category'', JStr ''HARM_CATEGORY_HARASSMENT''),
                        (''threshold'', JStr (gemini_safety_threshold p))],
                  JObj [(''category'', JStr ''HARM_CATEGORY_SEXUALLY_EXPLICIT''),
                        (''threshold'', JStr (gemini_safety_threshold p))],
                  JObj [(''category'', JStr ''HARM_CATEGORY_DANGEROUS_CONTENT''),
                        (''threshold'', JStr (gemini_safety_threshold p))]])]
      in JObj (if py_truthy (gemini_system_instruction p)
               then dict_set payload ''systemInstruction'' (gemini_system_instruction p)
               else payload))"

text \<open>\<^verbatim>\<open>generateResponse-gemini.py\<close>, lines 43 to 72.\<close>

definition url_gemini :: "gemini_params \<Rightarrow> string" where
  "url_gemini p =
     ''https://generativelanguage.googleapis.com/'' @ gemini_api_version p @ ''/models/''
       @ model p @ '':generateContent?key='' @ api_key p"

definition parts_gemini :: "gemini_params \<Rightarrow> json list" where
  "parts_gemini p =
     (let parts = [JObj [(''text'', JStr (gemini_user_prompt p))]]
      in if py_truthy (gemini_inline_data p)
         then parts @ [JObj [(''inline_data'', gemini_inline_data p)]]
         else parts)"

definition payload_gemini :: "gemini_params \<Rightarrow> json" where
  "payload_gemini p =
     (let payload =
        [(''contents'', JArr [JObj [(''parts'', JArr (parts_gemini p))]]),
         (''generationConfig'',
            JObj [(''maxOutputTokens'', JInt (gemini_max_tokens p)),
                  (''temperature'', JFloat (gemini_temperature p)),
                  (''topP'', JFloat (gemini_top_p p)),
                  (''topK'', JInt (gemini_top_k p)),
                  (''candidateCount'', JInt (gemini_candidate_count p))]),
         (''safetySettings'',
            JArr [JObj [(''category'', JStr ''HARM_CATEGORY_HATE_SPEECH''),
                        (''threshold'', JStr (gemini_safety_threshold p))],
                  JObj [(''category'', JStr ''HARM_CATEGORY_HARASSMENT''),
                        (''threshold'', JStr (gemini_safety_threshold p))],
                  JObj [(''category'', JStr ''HARM_CATEGORY_SEXUALLY_EXPLICIT''),
                        (''threshold'', JStr (gemini_safety_threshold p))],
                  JObj [(''category'', JStr ''HARM_CATEGORY_DANGEROUS_CONTENT''),
                        (''threshold'', JStr (gemini_safety_threshold p))]])]
      in JObj (if py_truthy (gemini_system_instruction p)
               then dict_set payload ''systemInstruction'' (gemini_system_instruction p)
               else payload))"


text \<open>
  Everything up to the transport: the arguments are bound, then the address and the
  payload are built.  Nothing here has an effect.
\<close>

definition request_plain :: "call_args \<Rightarrow> py_error + string \<times> json" where
  "request_plain a =
     (case bind_plain a of Inl e \<Rightarrow> Inl e | Inr p \<Rightarrow> Inr (url_plain p, payload_plain p))"

definition request_gemini :: "call_args \<Rightarrow> py_error + string \<times> json" where
  "request_gemini a =
     (case bind_gemini a of Inl e \<Rightarrow> Inl e | Inr p \<Rightarrow> Inr (url_gemini p, payload_gemini p))"

text \<open>The built payload read along a path; \<open>Inl\<close> when the call fails before a payload exists.\<close>

definition payload_at :: "py_error + string \<times> json \<Rightarrow> sel list \<Rightarrow> py_error + json option" where
  "payload_at r path = (case r of Inl e \<Rightarrow> Inl e | Inr up \<Rightarrow> Inr (jpath (snd up) path))"

section \<open>Base64\<close>

text \<open>
  \<^verbatim>\<open>base64.b64encode\<close> and \<^verbatim>\<open>base64.b64decode\<close> belong to Python's standard library,
  not to the repository.  The encoder is the one of RFC 4648, section 4: three bytes
  become four characters of the alphabet, and a last group of one or two bytes is padded
  with \<^verbatim>\<open>=\<close>.  The decoder is the loop of CPython's \<^verbatim>\<open>binascii.a2b_base64\<close> without
  strict mode, which is what \<^verbatim>\<open>b64decode\<close> calls by default: characters outside the
  alphabet are skipped, a padding character ends the input once it completes a group,
  and an incomplete last group is an error.
\<close>

definition b64_alphabet :: string where
  "b64_alphabet = ''ABCDEFGHIJKLMNOPQRSTUVWXYZabcdefghijklmnopqrstuvwxyz0123456789+/''"

definition b2a :: "byte \<Rightarrow> char" where
  "b2a s = b64_alphabet ! unat s"

definition a2b :: "char \<Rightarrow> byte option" where
  "a2b c = map_of (zip b64_alphabet (map of_nat [0..<64])) c"

fun b2a_base64 :: "byte list \<Rightarrow> string" where
  "b2a_base64 (a # b # c # rest) =
     [b2a (drop_bit 2 a),
      b2a (push_bit 4 (a AND 3) OR drop_bit 4 b),
      b2a (push_bit 2 (b AND 15) OR drop_bit 6 c),
      b2a (c AND 63)] @ b2a_base64 rest"
| "b2a_base64 [a, b] =
     [b2a (drop_bit 2 a),
      b2a (push_bit 4 (a AND 3) OR drop_bit 4 b),
      b2a (push_bit 2 (b AND 15)),
      CHR ''='']"
| "b2a_base64 [a] =
     [b2a (drop_bit 2 a), b2a (push_bit 4 (a AND 3)), CHR ''='', CHR ''='']"
| "b2a_base64 [] = []"

fun a2b_loop :: "string \<Rightarrow> nat \<Rightarrow> byte \<Rightarrow> nat \<Rightarrow> byte list \<Rightarrow> py_error + byte list" where
  "a2b_loop [] quad_pos leftchar pads out =
     (if quad_pos \<noteq> 0 then Inl Base64Error else Inr out)"
| "a2b_loop (this_ch # rest) quad_pos leftchar pads out =
     (if this_ch = CHR ''='' then
        (if quad_pos \<ge> 2 \<and> quad_pos + Suc pads \<ge> 4 then Inr out
         else a2b_loop rest quad_pos leftchar (if quad_pos \<ge> 2 then Suc pads else pads) out)
      else case a2b this_ch of
        None \<Rightarrow> a2b_loop rest quad_pos leftchar pads out
      | Some v \<Rightarrow>
         (if quad_pos = 0 then a2b_loop rest 1 v 0 out
          else if quad_pos = 1 then
            a2b_loop rest 2 (v AND 15) 0 (out @ [push_bit 2 leftchar OR drop_bit 4 v])
          else if quad_pos = 2 then
            a2b_loop rest 3 (v AND 3) 0 (out @ [push_bit 4 leftchar OR drop_bit 2 v])
          else a2b_loop rest 0 0 0 (out @ [push_bit 6 leftchar OR v])))"

definition a2b_base64 :: "string \<Rightarrow> py_error + byte list" where
  "a2b_base64 s = a2b_loop s 0 0 0 []"

text \<open>\<^verbatim>\<open>base64.b64encode(b).decode('utf-8')\<close>: the encoder's output is ASCII.\<close>

definition b64encode :: "byte list \<Rightarrow> string" where
  "b64encode bs = b2a_base64 bs"

text \<open>
  \<^verbatim>\<open>base64.b64decode(x)\<close>: a string must be ASCII (\<^verbatim>\<open>ValueError\<close> otherwise); a value
  of the response that is no string is not bytes-like (\<^verbatim>\<open>TypeError\<close>).
\<close>

definition is_ascii :: "string \<Rightarrow> bool" where
  "is_ascii s = list_all (\<lambda>c. (of_char c :: nat) < 128) s"

fun b64decode :: "json \<Rightarrow> py_error + byte list" where
  "b64decode (JStr s) = (if is_ascii s then a2b_base64 s else Inl ValueError)"
| "b64decode _ = Inl TypeError"

section \<open>The outside world\<close>

text \<open>
  What the scripts get from outside is a parameter of the model: the files, the two
  tables of \<^verbatim>\<open>mimetypes\<close>, the parser behind \<^verbatim>\<open>int(s)\<close>, the clock, and the remote
  service behind \<^verbatim>\<open>requests.post\<close>.  \<open>None\<close> in \<open>read_text\<close> and \<open>read_bytes\<close> is a
  file that cannot be opened or read; \<open>None\<close> in \<open>py_int\<close> is a string that \<^verbatim>\<open>int\<close>
  rejects; \<open>Inl\<close> in \<open>guess_type\<close> is the error that \<^verbatim>\<open>mimetypes.guess_type\<close> raises
  on a name that it cannot parse as a URL; \<open>now k\<close> is what \<^verbatim>\<open>datetime.now().strftime("%Y%m%d_%H%M%S_%f")\<close> returns
  at the \<open>k\<close>-th reading of the clock.
\<close>

record response =
  status_code :: int
  body_text :: string
  body_json :: "json option"

record env =
  py_int :: "string \<Rightarrow> int option"
  read_text :: "string \<Rightarrow> string option"
  read_bytes :: "string \<Rightarrow> byte list option"
  can_write :: "string \<Rightarrow> bool"
  guess_type :: "string \<Rightarrow> py_error + string option"
  guess_extension :: "string \<Rightarrow> string option"
  now :: "nat \<Rightarrow> string"
  post :: "string \<Rightarrow> json \<Rightarrow> py_error + response"

text \<open>
  \<^verbatim>\<open>Response.raise_for_status\<close> and \<^verbatim>\<open>Response.ok\<close> of the \<^verbatim>\<open>requests\<close> library, which
  is not part of the repository: the first raises \<^verbatim>\<open>HTTPError\<close> for a status from 400
  to 599, and \<^verbatim>\<open>ok\<close> is true when \<^verbatim>\<open>raise_for_status\<close> does not raise.
  \<^verbatim>\<open>Response.json()\<close> raises when the body is not JSON.
\<close>

definition raise_for_status :: "response \<Rightarrow> py_error + unit" where
  "raise_for_status r =
     (if 400 \<le> status_code r \<and> status_code r < 600 then Inl (HTTPError (status_code r))
      else Inr ())"

definition ok :: "response \<Rightarrow> bool" where
  "ok r = (case raise_for_status r of Inl e \<Rightarrow> False | Inr u \<Rightarrow> True)"

definition response_json :: "response \<Rightarrow> py_error + json" where
  "response_json r = (case body_json r of None \<Rightarrow> Inl JSONDecodeError | Some j \<Rightarrow> Inr j)"

text \<open>
  What a run does to the outside is recorded in order.  \<open>HttpPost\<close> carries the address,
  the headers and the payload that \<^verbatim>\<open>json.dumps\<close> serialises; \<open>PrintJson\<close> is
  \<^verbatim>\<open>print(json.dumps(result, indent=2))\<close>.
\<close>

datatype event =
    Print string
  | PrintJson json
  | OpenText string
  | OpenBinary string
  | HttpPost string "(string \<times> string) list" json
  | WriteFile string "byte list"

record world =
  trace :: "event list"
  clock :: nat

type_synonym 'a io = "world \<Rightarrow> (py_error + 'a) \<times> world"

definition io_return :: "'a \<Rightarrow> 'a io" where
  "io_return x = (\<lambda>w. (Inr x, w))"

definition io_raise :: "py_error \<Rightarrow> 'a io" where
  "io_raise e = (\<lambda>w. (Inl e, w))"

definition io_lift :: "py_error + 'a \<Rightarrow> 'a io" where
  "io_lift r = (\<lambda>w. (r, w))"

definition io_bind :: "'a io \<Rightarrow> ('a \<Rightarrow> 'b io) \<Rightarrow> 'b io" where
  "io_bind m f = (\<lambda>w. case m w of (Inl e, w') \<Rightarrow> (Inl e, w') | (Inr x, w') \<Rightarrow> f x w')"

definition emit :: "event \<Rightarrow> unit io" where
  "emit e = (\<lambda>w. (Inr (), w\<lparr>trace := trace w @ [e]\<rparr>))"

text \<open>The same sequencing for a computation that can only raise.\<close>

definition ebind :: "py_error + 'a \<Rightarrow> ('a \<Rightarrow> py_error + 'b) \<Rightarrow> py_error + 'b" where
  "ebind r f = (case r of Inl e \<Rightarrow> Inl e | Inr x \<Rightarrow> f x)"

definition http_post :: "env \<Rightarrow> string \<Rightarrow> (string \<times> string) list \<Rightarrow> json \<Rightarrow> response io" where
  "http_post env url headers payload =
     io_bind (emit (HttpPost url headers payload)) (\<lambda>_. io_lift (post env url payload))"

definition open_read :: "env \<Rightarrow> string \<Rightarrow> string io" where
  "open_read env path =
     io_bind (emit (OpenText path))
       (\<lambda>_. case read_text env path of None \<Rightarrow> io_raise OSError | Some s \<Rightarrow> io_return s)"

definition open_read_binary :: "env \<Rightarrow> string \<Rightarrow> byte list io" where
  "open_read_binary env path =
     io_bind (emit (OpenBinary path))
       (\<lambda>_. case read_bytes env path of None \<Rightarrow> io_raise OSError | Some bs \<Rightarrow> io_return bs)"

definition write_binary :: "env \<Rightarrow> string \<Rightarrow> byte list \<Rightarrow> unit io" where
  "write_binary env path bs =
     (if can_write env path then emit (WriteFile path bs) else io_raise OSError)"

definition read_clock :: "env \<Rightarrow> string io" where
  "read_clock env = (\<lambda>w. (Inr (now env (clock w)), w\<lparr>clock := Suc (clock w)\<rparr>))"

section \<open>The transport\<close>

text \<open>\<^verbatim>\<open>generateResponse.py\<close>, lines 63 to 70.\<close>

definition call_gemini_api_plain :: "env \<Rightarrow> call_args \<Rightarrow> json io" where
  "call_gemini_api_plain env a =
     (case request_plain a of
        Inl e \<Rightarrow> io_raise e
      | Inr (url, payload) \<Rightarrow>
          io_bind (http_post env url [(''Content-Type'', ''application/json'')] payload)
            (\<lambda>response.
               io_bind (io_lift (raise_for_status response))
                 (\<lambda>_. io_lift (response_json response))))"

text \<open>\<^verbatim>\<open>generateResponse-gemini.py\<close>, lines 74 to 84.\<close>

definition call_gemini_api :: "env \<Rightarrow> call_args \<Rightarrow> json io" where
  "call_gemini_api env a =
     (case request_gemini a of
        Inl e \<Rightarrow> io_raise e
      | Inr (url, payload) \<Rightarrow>
          io_bind (http_post env url [(''Content-Type'', ''application/json'')] payload)
            (\<lambda>response.
               io_bind
                 (if \<not> ok response then
                    io_bind
                      (emit (Print (''Error '' @ str_int (status_code response) @ '': ''
                                      @ body_text response)))
                      (\<lambda>_. io_lift (raise_for_status response))
                  else io_return ())
                 (\<lambda>_. io_lift (response_json response))))"


section \<open>The command line of \<^verbatim>\<open>generateResponse-gemini.py\<close>\<close>

text \<open>\<^verbatim>\<open>str.strip()\<close> removes the white space of \<^verbatim>\<open>str.isspace\<close> at both ends.\<close>

definition py_isspace :: "char \<Rightarrow> bool" where
  "py_isspace c =
     (let n = (of_char c :: nat)
      in (9 \<le> n \<and> n \<le> 13) \<or> (28 \<le> n \<and> n \<le> 32) \<or> n = 133 \<or> n = 160)"

definition py_strip :: "string \<Rightarrow> string" where
  "py_strip s = rev (dropWhile py_isspace (rev (dropWhile py_isspace s)))"

text \<open>Lines 106 to 121: the attachment, when a fourth argument names one.\<close>

definition read_inline_data :: "env \<Rightarrow> string list \<Rightarrow> json io" where
  "read_inline_data env argv =
     (if length argv \<ge> 5 then
        (let binary_file = argv ! 4
         in io_bind (io_lift (guess_type env binary_file))
              (\<lambda>guessed.
                 let mime_type = (case guessed of
                                    None \<Rightarrow> ''application/octet-stream''
                                  | Some m \<Rightarrow>
                                      if m = [] then ''application/octet-stream'' else m)
                 in io_bind (open_read_binary env binary_file)
                      (\<lambda>binary_content.
                         io_return (JObj [(''mime_type'', JStr mime_type),
                                          (''data'', JStr (b64encode binary_content))]))))
      else io_return JNull)"

text \<open>Lines 93 to 133: the arguments of the one call the script makes.\<close>

definition cli_args :: "env \<Rightarrow> string list \<Rightarrow> call_args io" where
  "cli_args env argv =
     io_bind (io_lift (case py_int env (argv ! 1) of None \<Rightarrow> Inl ValueError | Some n \<Rightarrow> Inr n))
       (\<lambda>max_tokens.
     io_bind (open_read env (argv ! 2)) (\<lambda>system_instruction_text.
     io_bind (open_read env (argv ! 3)) (\<lambda>user_prompt_text.
     io_bind (read_inline_data env argv) (\<lambda>inline_data.
     io_bind (open_read env ''api.key'') (\<lambda>key_text.
     io_return
       \<lparr> arg_api_key = Some (py_strip key_text),
         arg_user_prompt = Some user_prompt_text,
         arg_max_tokens = Some max_tokens,
         arg_system_instruction =
           Some (JObj [(''parts'', JArr [JObj [(''text'', JStr system_instruction_text)]])]),
         arg_inline_data = Some inline_data,
         arg_temperature = None,
         arg_top_p = None,
         arg_top_k = None,
         arg_candidate_count = None,
         arg_safety_threshold = None,
         arg_api_version = None,
         arg_model = None \<rparr>)))))"

text \<open>Lines 140 to 151: one part of one candidate.\<close>

fun py_get :: "json \<Rightarrow> string \<Rightarrow> json \<Rightarrow> py_error + json" where
  "py_get (JObj kvs) k d = Inr (case map_of kvs k of None \<Rightarrow> d | Some v \<Rightarrow> v)"
| "py_get _ k d = Inl AttributeError"

fun py_guess_extension :: "env \<Rightarrow> json \<Rightarrow> py_error + string option" where
  "py_guess_extension env (JStr s) = Inr (guess_extension env s)"
| "py_guess_extension env _ = Inl AttributeError"

definition write_part :: "env \<Rightarrow> nat \<Rightarrow> nat \<Rightarrow> json \<Rightarrow> unit io" where
  "write_part env idx part_idx part =
     io_bind (io_lift (py_in ''inline_data'' part)) (\<lambda>has_inline_data.
       if has_inline_data then
         io_bind (read_clock env) (\<lambda>timestamp.
         io_bind (io_lift (ebind (py_getitem part ''inline_data'')
                    (\<lambda>d. py_get d ''mime_type'' (JStr ''application/octet-stream''))))
           (\<lambda>mime_type.
         io_bind (io_lift (py_guess_extension env mime_type)) (\<lambda>guessed.
           let extension = (case guessed of
                              None \<Rightarrow> ''.bin''
                            | Some e \<Rightarrow> if e = [] then ''.bin'' else e);
               filename = ''output_'' @ timestamp @ ''_c'' @ str_nat idx @ ''_p''
                            @ str_nat part_idx @ extension
           in
         io_bind (io_lift (ebind (ebind (py_getitem part ''inline_data'')
                                    (\<lambda>d. py_getitem d ''data'')) b64decode))
           (\<lambda>binary_data.
         io_bind (write_binary env filename binary_data) (\<lambda>_.
         emit (Print (''Binary output written to: '' @ filename)))))))
       else io_return ())"

fun write_parts :: "env \<Rightarrow> nat \<Rightarrow> nat \<Rightarrow> json list \<Rightarrow> unit io" where
  "write_parts env idx part_idx [] = io_return ()"
| "write_parts env idx part_idx (part # rest) =
     io_bind (write_part env idx part_idx part)
       (\<lambda>_. write_parts env idx (Suc part_idx) rest)"

text \<open>Lines 138 and 139: \<^verbatim>\<open>and\<close> evaluates its right side only when the left one is true.\<close>

definition has_parts :: "json \<Rightarrow> py_error + bool" where
  "has_parts candidate =
     ebind (py_in ''content'' candidate) (\<lambda>has_content.
       if has_content
       then ebind (py_getitem candidate ''content'') (\<lambda>content. py_in ''parts'' content)
       else Inr False)"

definition write_candidate :: "env \<Rightarrow> nat \<Rightarrow> json \<Rightarrow> unit io" where
  "write_candidate env idx candidate =
     io_bind (io_lift (has_parts candidate)) (\<lambda>has.
       if has then
         io_bind (io_lift (ebind (ebind (py_getitem candidate ''content'')
                                    (\<lambda>content. py_getitem content ''parts'')) py_iter))
           (\<lambda>parts. write_parts env idx 0 parts)
       else io_return ())"

fun write_candidates :: "env \<Rightarrow> nat \<Rightarrow> json list \<Rightarrow> unit io" where
  "write_candidates env idx [] = io_return ()"
| "write_candidates env idx (candidate # rest) =
     io_bind (write_candidate env idx candidate)
       (\<lambda>_. write_candidates env (Suc idx) rest)"

text \<open>Lines 136 to 151.\<close>

definition write_outputs :: "env \<Rightarrow> json \<Rightarrow> unit io" where
  "write_outputs env result =
     io_bind (io_lift (py_in ''candidates'' result)) (\<lambda>has_candidates.
       if has_candidates then
         io_bind (io_lift (ebind (py_getitem result ''candidates'') py_iter))
           (\<lambda>candidates. write_candidates env 0 candidates)
       else io_return ())"

text \<open>Lines 87 to 153.  \<open>argv\<close> is \<^verbatim>\<open>sys.argv\<close>, the name of the script included.\<close>

definition usage :: string where
  "usage = ''Usage: python generateResponse.py <max_tokens> <system_instruction_file> <user_prompt_file> [binary_file]''"

definition main :: "env \<Rightarrow> string list \<Rightarrow> unit io" where
  "main env argv =
     (if length argv < 4 then
        io_bind (emit (Print usage)) (\<lambda>_. io_raise (SystemExit 1))
      else
        io_bind (cli_args env argv) (\<lambda>args.
        io_bind (call_gemini_api env args) (\<lambda>result.
        io_bind (write_outputs env result) (\<lambda>_.
        emit (PrintJson result)))))"

text \<open>
  The status the process ends with: 0 after the last statement, the argument of
  \<^verbatim>\<open>sys.exit\<close>, and 1 for an exception nobody catches.
\<close>

fun exit_status :: "py_error + unit \<Rightarrow> int" where
  "exit_status (Inr u) = 0"
| "exit_status (Inl (SystemExit n)) = n"
| "exit_status (Inl e) = 1"

section \<open>Reading a trace\<close>

fun posts :: "event list \<Rightarrow> (string \<times> json) list" where
  "posts [] = []"
| "posts (HttpPost url headers payload # es) = (url, payload) # posts es"
| "posts (e # es) = posts es"

fun printed :: "event list \<Rightarrow> string list" where
  "printed [] = []"
| "printed (Print s # es) = s # printed es"
| "printed (e # es) = printed es"

fun opened :: "event list \<Rightarrow> string list" where
  "opened [] = []"
| "opened (OpenText p # es) = p # opened es"
| "opened (OpenBinary p # es) = p # opened es"
| "opened (e # es) = opened es"

fun written :: "event list \<Rightarrow> (string \<times> byte list) list" where
  "written [] = []"
| "written (WriteFile p bs # es) = (p, bs) # written es"
| "written (e # es) = written es"

definition world0 :: world where
  "world0 = \<lparr> trace = [], clock = 0 \<rparr>"


section \<open>Sample runs\<close>

text \<open>
  A call with the two arguments that both signatures require and nothing else, as in
  \<^verbatim>\<open>call_gemini_api(api_key="k", gemini_user_prompt="Hello")\<close>.
\<close>

definition call_min :: call_args where
  "call_min =
     \<lparr> arg_api_key = Some ''k'',
       arg_user_prompt = Some ''Hello'',
       arg_max_tokens = None,
       arg_system_instruction = None,
       arg_inline_data = None,
       arg_temperature = None,
       arg_top_p = None,
       arg_top_k = None,
       arg_candidate_count = None,
       arg_safety_threshold = None,
       arg_api_version = None,
       arg_model = None \<rparr>"

text \<open>
  A working directory with a key, two text files and a small attachment; the clock
  stands still, and the service answers every request with status 200 and an empty
  object.
\<close>

definition env_demo :: env where
  "env_demo =
     \<lparr> py_int = (\<lambda>s. if s = ''64'' then Some 64 else None),
       read_text = (\<lambda>p. if p = ''system.txt'' then Some ''Be brief.''
                         else if p = ''prompt.txt'' then Some ''Describe the image.''
                         else if p = ''api.key'' then Some ''secret''
                         else None),
       read_bytes = (\<lambda>p. if p = ''dot.png'' then Some [137, 80, 78, 71, 13] else None),
       can_write = (\<lambda>p. True),
       guess_type = (\<lambda>p. if p = ''dot.png'' then Inr (Some ''image/png'')
                          else if p = ''//[x.png'' then Inl ValueError
                          else Inr None),
       guess_extension = (\<lambda>m. if m = ''image/png'' then Some ''.png'' else None),
       now = (\<lambda>k. ''20240101_120000_000001''),
       post = (\<lambda>url payload.
                 Inr \<lparr> status_code = 200, body_text = ''{}'', body_json = Some (JObj []) \<rparr>) \<rparr>"

text \<open>The same, with a service that answers status 429 and a body that says why.\<close>

definition env_429 :: env where
  \<open>env_429 =
     env_demo \<lparr> post := (\<lambda>url payload.
                   Inr \<lparr> status_code = 429,
                         body_text = ''{"error":"rate limited"}'',
                         body_json = Some (JObj [(''error'', JStr ''rate limited'')]) \<rparr>) \<rparr>\<close>

definition argv_demo :: "string list" where
  "argv_demo = [''generateResponse-gemini.py'', ''64'', ''system.txt'', ''prompt.txt'', ''dot.png'']"

text \<open>
  An answer with two candidates, each with one part that carries a PNG, the bytes
  \<^verbatim>\<open>Man\<close> and \<^verbatim>\<open>M\<close> in base64, beside parts of text: two before it in the first
  candidate, one after it in the second.
\<close>

definition result_two_png :: json where
  "result_two_png =
     JObj [(''candidates'',
            JArr [JObj [(''content'',
                         JObj [(''parts'',
                                JArr [JObj [(''text'', JStr ''Here is'')],
                                      JObj [(''text'', JStr ''the first image.'')],
                                      JObj [(''inline_data'',
                                             JObj [(''mime_type'', JStr ''image/png''),
                                                   (''data'', JStr ''TWFu'')])]]),
                               (''role'', JStr ''model'')]),
                        (''finishReason'', JStr ''STOP'')],
                  JObj [(''content'',
                         JObj [(''parts'',
                                JArr [JObj [(''inline_data'',
                                             JObj [(''mime_type'', JStr ''image/png''),
                                                   (''data'', JStr ''TQ=='')])],
                                      JObj [(''text'', JStr ''That was the second.'')]]),
                               (''role'', JStr ''model'')]),
                        (''finishReason'', JStr ''STOP'')]]),
           (''modelVersion'', JStr ''gemini-2.5-pro'')]"

text \<open>The characters that end a name before its extension: the digits of an index.\<close>

definition is_digit :: "char \<Rightarrow> bool" where
  "is_digit c = (c \<in> set ''0123456789'')"

text \<open>An answer whose one inline part declares a type and carries no \<^verbatim>\<open>data\<close>.\<close>

definition result_no_data :: json where
  "result_no_data =
     JObj [(''candidates'',
            JArr [JObj [(''content'',
                         JObj [(''parts'',
                                JArr [JObj [(''inline_data'',
                                             JObj [(''mime_type'', JStr ''image/png'')])]])])]])]"

declare str_nat.simps [simp del]


section \<open>The request: helper facts\<close>

lemma map_of_dict_set:
  "map_of (dict_set kvs k v) k' = (if k' = k then Some v else map_of kvs k')"
  by (induction kvs) auto

lemma request_gemini_Inr:
  "request_gemini a = Inr (url, payload) \<Longrightarrow>
     \<exists>p. bind_gemini a = Inr p \<and> url = url_gemini p \<and> payload = payload_gemini p"
  by (auto simp add: request_gemini_def split: sum.splits)

lemma request_plain_Inr:
  "request_plain a = Inr (url, payload) \<Longrightarrow>
     \<exists>p. bind_plain a = Inr p \<and> url = url_plain p \<and> payload = payload_plain p"
  by (auto simp add: request_plain_def split: sum.splits)

lemma bind_gemini_fields:
  assumes "bind_gemini a = Inr p"
  shows "arg_api_key a = Some (api_key p)"
    and "arg_user_prompt a = Some (gemini_user_prompt p)"
    and "arg_max_tokens a = Some (gemini_max_tokens p)"
    and "gemini_system_instruction p = dflt JNull (arg_system_instruction a)"
    and "gemini_inline_data p = dflt JNull (arg_inline_data a)"
    and "gemini_temperature p = dflt 1.0 (arg_temperature a)"
    and "gemini_top_p p = dflt 0.95 (arg_top_p a)"
    and "gemini_top_k p = dflt 40 (arg_top_k a)"
    and "gemini_candidate_count p = dflt 1 (arg_candidate_count a)"
    and "gemini_safety_threshold p = dflt ''BLOCK_ONLY_HIGH'' (arg_safety_threshold a)"
  using assms by (auto simp add: bind_gemini_def split: option.splits)

lemma bind_plain_fields:
  assumes "bind_plain a = Inr p"
  shows "arg_api_key a = Some (api_key p)"
    and "arg_user_prompt a = Some (gemini_user_prompt p)"
    and "gemini_max_tokens p = dflt 8192 (arg_max_tokens a)"
    and "gemini_system_instruction p = dflt JNull (arg_system_instruction a)"
    and "arg_inline_data a = None"
    and "arg_api_version a = None"
    and "gemini_temperature p = dflt 1.0 (arg_temperature a)"
    and "gemini_top_p p = dflt 0.95 (arg_top_p a)"
    and "gemini_top_k p = dflt 40 (arg_top_k a)"
    and "gemini_candidate_count p = dflt 1 (arg_candidate_count a)"
    and "gemini_safety_threshold p = dflt ''BLOCK_ONLY_HIGH'' (arg_safety_threshold a)"
  using assms by (auto simp add: bind_plain_def split: option.splits if_splits)

lemma payload_gemini_contents:
  "jpath (payload_gemini p) (K ''contents'' # path) =
     jpath (JArr [JObj [(''parts'', JArr (parts_gemini p))]]) path"
  by (simp add: payload_gemini_def Let_def map_of_dict_set)

lemma payload_plain_contents:
  "jpath (payload_plain p) (K ''contents'' # path) =
     jpath (JArr [JObj [(''parts'', JArr [JObj [(''text'', JStr (gemini_user_prompt p))]])]]) path"
  by (simp add: payload_plain_def Let_def map_of_dict_set)


lemma payload_gemini_key:
  "k \<noteq> ''systemInstruction'' \<Longrightarrow>
   jpath (payload_gemini p) (K k # path) =
     jpath (payload_gemini (p\<lparr>gemini_system_instruction := JNull\<rparr>)) (K k # path)"
  by (simp add: payload_gemini_def parts_gemini_def Let_def map_of_dict_set)

lemma payload_gemini_system_instruction:
  "jpath (payload_gemini p) [K ''systemInstruction''] =
     (if py_truthy (gemini_system_instruction p) then Some (gemini_system_instruction p) else None)"
  by (simp add: payload_gemini_def Let_def map_of_dict_set)

lemma payload_plain_system_instruction:
  "jpath (payload_plain p) [K ''systemInstruction''] =
     (if py_truthy (gemini_system_instruction p) then Some (gemini_system_instruction p) else None)"
  by (simp add: payload_plain_def Let_def map_of_dict_set)

lemma set_dict_set: "fst ` set (dict_set kvs k v) = insert k (fst ` set kvs)"
  by (induction kvs k v rule: dict_set.induct) (simp_all add: insert_commute)

lemma payload_gemini_in:
  "py_in ''systemInstruction'' (payload_gemini p) = Inr (py_truthy (gemini_system_instruction p))"
  by (simp add: payload_gemini_def Let_def set_dict_set)

lemma payload_plain_in:
  "py_in ''systemInstruction'' (payload_plain p) = Inr (py_truthy (gemini_system_instruction p))"
  by (simp add: payload_plain_def Let_def set_dict_set)

lemma payload_gemini_falsy:
  "\<not> py_truthy (gemini_system_instruction p) \<Longrightarrow>
   payload_gemini p = payload_gemini (p\<lparr>gemini_system_instruction := JNull\<rparr>)"
  by (simp add: payload_gemini_def parts_gemini_def Let_def)

lemma payload_plain_falsy:
  "\<not> py_truthy (gemini_system_instruction p) \<Longrightarrow>
   payload_plain p = payload_plain (p\<lparr>gemini_system_instruction := JNull\<rparr>)"
  by (simp add: payload_plain_def Let_def)

lemma payload_gemini_safety:
  "jpath (payload_gemini p) [K ''safetySettings''] =
     Some (JArr [JObj [(''category'', JStr ''HARM_CATEGORY_HATE_SPEECH''),
                       (''threshold'', JStr (gemini_safety_threshold p))],
                 JObj [(''category'', JStr ''HARM_CATEGORY_HARASSMENT''),
                       (''threshold'', JStr (gemini_safety_threshold p))],
                 JObj [(''category'', JStr ''HARM_CATEGORY_SEXUALLY_EXPLICIT''),
                       (''threshold'', JStr (gemini_safety_threshold p))],
                 JObj [(''category'', JStr ''HARM_CATEGORY_DANGEROUS_CONTENT''),
                       (''threshold'', JStr (gemini_safety_threshold p))]])"
  by (simp add: payload_gemini_def Let_def map_of_dict_set)

lemma payload_plain_safety:
  "jpath (payload_plain p) [K ''safetySettings''] =
     Some (JArr [JObj [(''category'', JStr ''HARM_CATEGORY_HATE_SPEECH''),
                       (''threshold'', JStr (gemini_safety_threshold p))],
                 JObj [(''category'', JStr ''HARM_CATEGORY_HARASSMENT''),
                       (''threshold'', JStr (gemini_safety_threshold p))],
                 JObj [(''category'', JStr ''HARM_CATEGORY_SEXUALLY_EXPLICIT''),
                       (''threshold'', JStr (gemini_safety_threshold p))],
                 JObj [(''category'', JStr ''HARM_CATEGORY_DANGEROUS_CONTENT''),
                       (''threshold'', JStr (gemini_safety_threshold p))]])"
  by (simp add: payload_plain_def Let_def map_of_dict_set)

lemma payload_gemini_config:
  "jpath (payload_gemini p) [K ''generationConfig''] =
     Some (JObj [(''maxOutputTokens'', JInt (gemini_max_tokens p)),
                 (''temperature'', JFloat (gemini_temperature p)),
                 (''topP'', JFloat (gemini_top_p p)),
                 (''topK'', JInt (gemini_top_k p)),
                 (''candidateCount'', JInt (gemini_candidate_count p))])"
  by (simp add: payload_gemini_def Let_def map_of_dict_set)

lemma payload_plain_config:
  "jpath (payload_plain p) [K ''generationConfig''] =
     Some (JObj [(''maxOutputTokens'', JInt (gemini_max_tokens p)),
                 (''temperature'', JFloat (gemini_temperature p)),
                 (''topP'', JFloat (gemini_top_p p)),
                 (''topK'', JInt (gemini_top_k p)),
                 (''candidateCount'', JInt (gemini_candidate_count p))])"
  by (simp add: payload_plain_def Let_def map_of_dict_set)

lemma request_gemini_call_min:
  "\<exists>url payload. request_gemini (call_min\<lparr>arg_max_tokens := Some n, arg_inline_data := d, arg_system_instruction := s\<rparr>) = Inr (url, payload)"
  by (simp add: request_gemini_def bind_gemini_def call_min_def)

lemma request_plain_call_min:
  "\<exists>url payload. request_plain (call_min\<lparr>arg_system_instruction := s\<rparr>) = Inr (url, payload)"
  by (simp add: request_plain_def bind_plain_def call_min_def)

lemma payload_at_Inr: "r = Inr (url, payload) \<Longrightarrow> payload_at r path = Inr (jpath payload path)"
  by (simp add: payload_at_def)

lemma request_gemini_exists:
  "arg_api_key a = Some k \<Longrightarrow> arg_user_prompt a = Some u \<Longrightarrow> arg_max_tokens a = Some n \<Longrightarrow>
     \<exists>url payload. request_gemini a = Inr (url, payload)"
  by (simp add: request_gemini_def bind_gemini_def)

lemma request_plain_exists:
  "arg_api_key a = Some k \<Longrightarrow> arg_user_prompt a = Some u \<Longrightarrow> arg_inline_data a = None \<Longrightarrow>
   arg_api_version a = None \<Longrightarrow> \<exists>url payload. request_plain a = Inr (url, payload)"
  by (simp add: request_plain_def bind_plain_def)

lemma bind_gemini_drop:
  "bind_gemini (a\<lparr>arg_system_instruction := None\<rparr>) =
     (case bind_gemini a of
        Inl e \<Rightarrow> Inl e
      | Inr p \<Rightarrow> Inr (p\<lparr>gemini_system_instruction := JNull\<rparr>))"
  by (simp add: bind_gemini_def dflt_def split: option.splits)

lemma bind_plain_drop:
  "bind_plain (a\<lparr>arg_system_instruction := None\<rparr>) =
     (case bind_plain a of
        Inl e \<Rightarrow> Inl e
      | Inr p \<Rightarrow> Inr (p\<lparr>gemini_system_instruction := JNull\<rparr>))"
  by (simp add: bind_plain_def dflt_def split: option.splits)

lemma request_gemini_drop:
  assumes "arg_system_instruction a = Some si" "\<not> py_truthy si"
  shows "request_gemini a = request_gemini (a\<lparr>arg_system_instruction := None\<rparr>)"
proof (cases "bind_gemini a")
  case (Inl e)
  then show ?thesis by (simp add: request_gemini_def bind_gemini_drop)
next
  case (Inr p)
  have "gemini_system_instruction p = si"
    using bind_gemini_fields(4) [OF Inr] assms(1) by (simp add: dflt_def)
  then have "payload_gemini p = payload_gemini (p\<lparr>gemini_system_instruction := JNull\<rparr>)"
    using assms(2) by (intro payload_gemini_falsy) simp
  moreover have "url_gemini p = url_gemini (p\<lparr>gemini_system_instruction := JNull\<rparr>)"
    by (simp add: url_gemini_def)
  ultimately show ?thesis
    by (simp add: request_gemini_def bind_gemini_drop Inr)
qed

lemma request_plain_drop:
  assumes "arg_system_instruction a = Some si" "\<not> py_truthy si"
  shows "request_plain a = request_plain (a\<lparr>arg_system_instruction := None\<rparr>)"
proof (cases "bind_plain a")
  case (Inl e)
  then show ?thesis by (simp add: request_plain_def bind_plain_drop)
next
  case (Inr p)
  have "gemini_system_instruction p = si"
    using bind_plain_fields(4) [OF Inr] assms(1) by (simp add: dflt_def)
  then have "payload_plain p = payload_plain (p\<lparr>gemini_system_instruction := JNull\<rparr>)"
    using assms(2) by (intro payload_plain_falsy) simp
  moreover have "url_plain p = url_plain (p\<lparr>gemini_system_instruction := JNull\<rparr>)"
    by (simp add: url_plain_def)
  ultimately show ?thesis
    by (simp add: request_plain_def bind_plain_drop Inr)
qed

section \<open>The parts of the payload\<close>

text \<open>
  Claim C1, as amended.  In both scripts the first part of \<^verbatim>\<open>contents[0].parts\<close> is the
  text part, and its text is the prompt exactly as supplied.  In
  \<^verbatim>\<open>generateResponse-gemini.py\<close> an inline-data part follows it as the only other part
  exactly when the supplied inline data is truthy; when it is absent, \<^verbatim>\<open>None\<close> or falsy
  (the empty mapping), the text part stands alone.  \<^verbatim>\<open>generateResponse.py\<close> has no
  inline data, and its list of parts is the text part alone.
\<close>
theorem C1_text_part_first:
  "(request_gemini a = Inr (url, payload) \<and> arg_user_prompt a = Some prompt \<longrightarrow>
      jpath payload [K ''contents'', I 0, K ''parts'', I 0, K ''text''] = Some (JStr prompt) \<and>
      jpath payload [K ''contents'', I 0, K ''parts''] =
        Some (JArr (JObj [(''text'', JStr prompt)] #
                (case arg_inline_data a of
                   None \<Rightarrow> []
                 | Some d \<Rightarrow> if py_truthy d then [JObj [(''inline_data'', d)]] else []))))
   \<and> (request_plain b = Inr (url', payload') \<and> arg_user_prompt b = Some prompt' \<longrightarrow>
      jpath payload' [K ''contents'', I 0, K ''parts'', I 0, K ''text''] = Some (JStr prompt') \<and>
      jpath payload' [K ''contents'', I 0, K ''parts''] =
        Some (JArr [JObj [(''text'', JStr prompt')]]))"
proof (intro conjI impI)
  assume h: "request_gemini a = Inr (url, payload) \<and> arg_user_prompt a = Some prompt"
  then obtain p where p: "bind_gemini a = Inr p" "payload = payload_gemini p"
    using request_gemini_Inr by blast
  have f: "gemini_user_prompt p = prompt" "gemini_inline_data p = dflt JNull (arg_inline_data a)"
    using bind_gemini_fields(2,5) [OF p(1)] h by simp_all
  show "jpath payload [K ''contents'', I 0, K ''parts'', I 0, K ''text''] = Some (JStr prompt)"
    by (simp add: p(2) payload_gemini_contents parts_gemini_def f(1) Let_def)
  show "jpath payload [K ''contents'', I 0, K ''parts''] =
        Some (JArr (JObj [(''text'', JStr prompt)] #
                (case arg_inline_data a of
                   None \<Rightarrow> []
                 | Some d \<Rightarrow> if py_truthy d then [JObj [(''inline_data'', d)]] else [])))"
    by (simp add: p(2) payload_gemini_contents parts_gemini_def f dflt_def Let_def split: option.splits)
next
  assume h: "request_plain b = Inr (url', payload') \<and> arg_user_prompt b = Some prompt'"
  then obtain p where p: "bind_plain b = Inr p" "payload' = payload_plain p"
    using request_plain_Inr by blast
  have f: "gemini_user_prompt p = prompt'"
    using bind_plain_fields(2) [OF p(1)] h by simp
  show "jpath payload' [K ''contents'', I 0, K ''parts'', I 0, K ''text''] = Some (JStr prompt')"
    by (simp add: p(2) payload_plain_contents f)
  show "jpath payload' [K ''contents'', I 0, K ''parts''] = Some (JArr [JObj [(''text'', JStr prompt')]])"
    by (simp add: p(2) payload_plain_contents f)
qed

text \<open>Claim C1 on a call with an attachment and on a call of the other script.\<close>

theorem C1_text_part_first_witness:
  "payload_at
     (request_gemini (call_min\<lparr>arg_max_tokens := Some 16,
        arg_inline_data := Some (JObj [(''mime_type'', JStr ''image/png''), (''data'', JStr ''TWFu'')])\<rparr>))
     [K ''contents'', I 0, K ''parts''] =
   Inr (Some (JArr [JObj [(''text'', JStr ''Hello'')],
                    JObj [(''inline_data'',
                           JObj [(''mime_type'', JStr ''image/png''), (''data'', JStr ''TWFu'')])]]))
   \<and> payload_at (request_plain call_min) [K ''contents'', I 0, K ''parts'', I 0, K ''text''] =
   Inr (Some (JStr ''Hello''))"
proof -
  let ?a = "call_min\<lparr>arg_max_tokens := Some 16,
        arg_inline_data := Some (JObj [(''mime_type'', JStr ''image/png''), (''data'', JStr ''TWFu'')])\<rparr>"
  obtain url payload where g: "request_gemini ?a = Inr (url, payload)"
    using request_gemini_call_min [where n = 16 and d = "arg_inline_data ?a" and s = None] by (auto simp add: call_min_def)
  obtain url' payload' where p: "request_plain call_min = Inr (url', payload')"
    using request_plain_call_min [of None] by (auto simp add: call_min_def)
  have prompt: "arg_user_prompt ?a = Some ''Hello''" "arg_user_prompt call_min = Some ''Hello''"
    and inl: "arg_inline_data ?a = Some (JObj [(''mime_type'', JStr ''image/png''), (''data'', JStr ''TWFu'')])"
    by (simp_all add: call_min_def)
  show ?thesis
    using C1_text_part_first [of ?a url payload "''Hello''" call_min url' payload' "''Hello''"]
    by (simp add: payload_at_def g p prompt inl)
qed

text \<open>
  Claim C1 as stated fails: the call supplies the empty mapping as inline data, and the
  payload has the text part only.
\<close>

theorem C1_empty_inline_data_dropped:
  "payload_at
     (request_gemini (call_min\<lparr>arg_max_tokens := Some 16, arg_inline_data := Some (JObj [])\<rparr>))
     [K ''contents'', I 0, K ''parts''] =
   Inr (Some (JArr [JObj [(''text'', JStr ''Hello'')]]))"
  by (simp add: request_gemini_def bind_gemini_def payload_at_def call_min_def
        payload_gemini_contents parts_gemini_def dflt_def Let_def)

section \<open>The system instruction\<close>

text \<open>
  Claim C3, as amended.  In both scripts, a call that supplies no system instruction
  builds a payload without the key \<^verbatim>\<open>systemInstruction\<close>, and a call that supplies a
  truthy system instruction builds a payload where the key is present with that value.
\<close>
theorem C3_system_instruction_key:
  "(request_gemini a = Inr (url, payload) \<and> arg_system_instruction a = None \<longrightarrow>
      py_in ''systemInstruction'' payload = Inr False)
   \<and> (request_gemini a' = Inr (url', payload') \<and> arg_system_instruction a' = Some si
        \<and> py_truthy si \<longrightarrow>
      py_in ''systemInstruction'' payload' = Inr True
      \<and> jpath payload' [K ''systemInstruction''] = Some si)
   \<and> (request_plain b = Inr (urlb, payloadb) \<and> arg_system_instruction b = None \<longrightarrow>
      py_in ''systemInstruction'' payloadb = Inr False)
   \<and> (request_plain b' = Inr (urlb', payloadb') \<and> arg_system_instruction b' = Some si'
        \<and> py_truthy si' \<longrightarrow>
      py_in ''systemInstruction'' payloadb' = Inr True
      \<and> jpath payloadb' [K ''systemInstruction''] = Some si')"
proof (intro conjI impI)
  assume h: "request_gemini a = Inr (url, payload) \<and> arg_system_instruction a = None"
  then obtain p where p: "bind_gemini a = Inr p" "payload = payload_gemini p"
    using request_gemini_Inr by blast
  show "py_in ''systemInstruction'' payload = Inr False"
    using bind_gemini_fields(4) [OF p(1)] h by (simp add: p(2) payload_gemini_in dflt_def)
next
  assume h: "request_gemini a' = Inr (url', payload') \<and> arg_system_instruction a' = Some si
        \<and> py_truthy si"
  then obtain p where p: "bind_gemini a' = Inr p" "payload' = payload_gemini p"
    using request_gemini_Inr by blast
  have si: "gemini_system_instruction p = si"
    using bind_gemini_fields(4) [OF p(1)] h by (simp add: dflt_def)
  show "py_in ''systemInstruction'' payload' = Inr True"
    using h by (simp add: p(2) payload_gemini_in si)
  show "jpath payload' [K ''systemInstruction''] = Some si"
    using h by (simp add: p(2) payload_gemini_system_instruction si)
next
  assume h: "request_plain b = Inr (urlb, payloadb) \<and> arg_system_instruction b = None"
  then obtain p where p: "bind_plain b = Inr p" "payloadb = payload_plain p"
    using request_plain_Inr by blast
  show "py_in ''systemInstruction'' payloadb = Inr False"
    using bind_plain_fields(4) [OF p(1)] h by (simp add: p(2) payload_plain_in dflt_def)
next
  assume h: "request_plain b' = Inr (urlb', payloadb') \<and> arg_system_instruction b' = Some si'
        \<and> py_truthy si'"
  then obtain p where p: "bind_plain b' = Inr p" "payloadb' = payload_plain p"
    using request_plain_Inr by blast
  have si: "gemini_system_instruction p = si'"
    using bind_plain_fields(4) [OF p(1)] h by (simp add: dflt_def)
  show "py_in ''systemInstruction'' payloadb' = Inr True"
    using h by (simp add: p(2) payload_plain_in si)
  show "jpath payloadb' [K ''systemInstruction''] = Some si'"
    using h by (simp add: p(2) payload_plain_system_instruction si)
qed

text \<open>
  Claim C3 as stated fails: the call supplies the empty mapping as system instruction,
  and the payload has no key \<^verbatim>\<open>systemInstruction\<close>.
\<close>

theorem C3_empty_system_instruction_omitted:
  "payload_at
     (request_gemini (call_min\<lparr>arg_max_tokens := Some 16, arg_system_instruction := Some (JObj [])\<rparr>))
     [K ''systemInstruction''] = Inr None"
  by (simp add: request_gemini_def bind_gemini_def payload_at_def call_min_def
        payload_gemini_system_instruction dflt_def)

text \<open>Claim C3 on four calls: without and with a system instruction, for each script.\<close>

theorem C3_system_instruction_key_witness:
  "payload_at (request_gemini (call_min\<lparr>arg_max_tokens := Some 16\<rparr>)) [K ''systemInstruction'']
     = Inr None
   \<and> payload_at
       (request_gemini (call_min\<lparr>arg_max_tokens := Some 16,
          arg_system_instruction := Some (JObj [(''parts'', JArr [JObj [(''text'', JStr ''Be brief.'')]])])\<rparr>))
       [K ''systemInstruction'']
     = Inr (Some (JObj [(''parts'', JArr [JObj [(''text'', JStr ''Be brief.'')]])]))
   \<and> payload_at (request_plain call_min) [K ''systemInstruction''] = Inr None
   \<and> payload_at
       (request_plain (call_min\<lparr>arg_system_instruction := Some (JStr ''Be brief.'')\<rparr>))
       [K ''systemInstruction'']
     = Inr (Some (JStr ''Be brief.''))"
proof -
  let ?si = "JObj [(''parts'', JArr [JObj [(''text'', JStr ''Be brief.'')]])]"
  let ?a = "call_min\<lparr>arg_max_tokens := Some 16\<rparr>"
  let ?a' = "call_min\<lparr>arg_max_tokens := Some 16, arg_system_instruction := Some ?si\<rparr>"
  let ?b' = "call_min\<lparr>arg_system_instruction := Some (JStr ''Be brief.'')\<rparr>"
  obtain u1 p1 where r1: "request_gemini ?a = Inr (u1, p1)"
    using request_gemini_call_min [where n = 16 and d = None and s = None] by (auto simp add: call_min_def)
  obtain u2 p2 where r2: "request_gemini ?a' = Inr (u2, p2)"
    using request_gemini_call_min [where n = 16 and d = None and s = "Some ?si"] by (auto simp add: call_min_def)
  obtain u3 p3 where r3: "request_plain call_min = Inr (u3, p3)"
    using request_plain_call_min [of None] by (auto simp add: call_min_def)
  obtain u4 p4 where r4: "request_plain ?b' = Inr (u4, p4)"
    using request_plain_call_min [of "Some (JStr ''Be brief.'')"] by auto
  have args: "arg_system_instruction ?a = None" "arg_system_instruction ?a' = Some ?si"
    "arg_system_instruction call_min = None" "arg_system_instruction ?b' = Some (JStr ''Be brief.'')"
    by (simp_all add: call_min_def)
  have absent: "py_in ''systemInstruction'' p1 = Inr False" "py_in ''systemInstruction'' p3 = Inr False"
    and present: "jpath p2 [K ''systemInstruction''] = Some ?si"
      "jpath p4 [K ''systemInstruction''] = Some (JStr ''Be brief.'')"
    using C3_system_instruction_key [of ?a u1 p1 ?a' u2 p2 ?si call_min u3 p3 ?b' u4 p4 "JStr ''Be brief.''"]
      r1 r2 r3 r4 args by simp_all
  have none: "jpath p1 [K ''systemInstruction''] = None" "jpath p3 [K ''systemInstruction''] = None"
    using absent r1 r3
    by (auto simp add: request_gemini_def request_plain_def split: sum.splits
          simp add: payload_gemini_in payload_plain_in payload_gemini_system_instruction
            payload_plain_system_instruction)
  show ?thesis
    by (simp add: payload_at_Inr [OF r1] payload_at_Inr [OF r2] payload_at_Inr [OF r3]
          payload_at_Inr [OF r4] present none)
qed

section \<open>The safety settings\<close>

text \<open>
  Claim C4.  In both scripts the payload's \<^verbatim>\<open>safetySettings\<close> is a list of exactly four
  entries, one for each of hate speech, harassment, sexually explicit and dangerous
  content, in this order, and the threshold of every entry is the one safety threshold
  that the caller supplied.
\<close>
theorem C4_safety_settings:
  "(request_gemini a = Inr (url, payload) \<and> arg_safety_threshold a = Some t \<longrightarrow>
      jpath payload [K ''safetySettings''] =
        Some (JArr [JObj [(''category'', JStr ''HARM_CATEGORY_HATE_SPEECH''), (''threshold'', JStr t)],
                    JObj [(''category'', JStr ''HARM_CATEGORY_HARASSMENT''), (''threshold'', JStr t)],
                    JObj [(''category'', JStr ''HARM_CATEGORY_SEXUALLY_EXPLICIT''), (''threshold'', JStr t)],
                    JObj [(''category'', JStr ''HARM_CATEGORY_DANGEROUS_CONTENT''), (''threshold'', JStr t)]]))
   \<and> (request_plain b = Inr (url', payload') \<and> arg_safety_threshold b = Some t' \<longrightarrow>
      jpath payload' [K ''safetySettings''] =
        Some (JArr [JObj [(''category'', JStr ''HARM_CATEGORY_HATE_SPEECH''), (''threshold'', JStr t')],
                    JObj [(''category'', JStr ''HARM_CATEGORY_HARASSMENT''), (''threshold'', JStr t')],
                    JObj [(''category'', JStr ''HARM_CATEGORY_SEXUALLY_EXPLICIT''), (''threshold'', JStr t')],
                    JObj [(''category'', JStr ''HARM_CATEGORY_DANGEROUS_CONTENT''), (''threshold'', JStr t')]]))"
proof (intro conjI impI)
  assume h: "request_gemini a = Inr (url, payload) \<and> arg_safety_threshold a = Some t"
  then obtain p where p: "bind_gemini a = Inr p" "payload = payload_gemini p"
    using request_gemini_Inr by blast
  have t: "gemini_safety_threshold p = t"
    using bind_gemini_fields(10) [OF p(1)] h by (simp add: dflt_def)
  show "jpath payload [K ''safetySettings''] =
        Some (JArr [JObj [(''category'', JStr ''HARM_CATEGORY_HATE_SPEECH''), (''threshold'', JStr t)],
                    JObj [(''category'', JStr ''HARM_CATEGORY_HARASSMENT''), (''threshold'', JStr t)],
                    JObj [(''category'', JStr ''HARM_CATEGORY_SEXUALLY_EXPLICIT''), (''threshold'', JStr t)],
                    JObj [(''category'', JStr ''HARM_CATEGORY_DANGEROUS_CONTENT''), (''threshold'', JStr t)]])"
    unfolding p(2) payload_gemini_safety t ..
next
  assume h: "request_plain b = Inr (url', payload') \<and> arg_safety_threshold b = Some t'"
  then obtain p where p: "bind_plain b = Inr p" "payload' = payload_plain p"
    using request_plain_Inr by blast
  have t: "gemini_safety_threshold p = t'"
    using bind_plain_fields(11) [OF p(1)] h by (simp add: dflt_def)
  show "jpath payload' [K ''safetySettings''] =
        Some (JArr [JObj [(''category'', JStr ''HARM_CATEGORY_HATE_SPEECH''), (''threshold'', JStr t')],
                    JObj [(''category'', JStr ''HARM_CATEGORY_HARASSMENT''), (''threshold'', JStr t')],
                    JObj [(''category'', JStr ''HARM_CATEGORY_SEXUALLY_EXPLICIT''), (''threshold'', JStr t')],
                    JObj [(''category'', JStr ''HARM_CATEGORY_DANGEROUS_CONTENT''), (''threshold'', JStr t')]])"
    unfolding p(2) payload_plain_safety t ..
qed

text \<open>Claim C4 on a call of each script, one of them with the empty string as threshold.\<close>

theorem C4_safety_settings_witness:
  "payload_at (request_gemini (call_min\<lparr>arg_max_tokens := Some 16, arg_safety_threshold := Some ''BLOCK_NONE''\<rparr>))
     [K ''safetySettings''] =
   Inr (Some (JArr [JObj [(''category'', JStr ''HARM_CATEGORY_HATE_SPEECH''), (''threshold'', JStr ''BLOCK_NONE'')],
                    JObj [(''category'', JStr ''HARM_CATEGORY_HARASSMENT''), (''threshold'', JStr ''BLOCK_NONE'')],
                    JObj [(''category'', JStr ''HARM_CATEGORY_SEXUALLY_EXPLICIT''), (''threshold'', JStr ''BLOCK_NONE'')],
                    JObj [(''category'', JStr ''HARM_CATEGORY_DANGEROUS_CONTENT''), (''threshold'', JStr ''BLOCK_NONE'')]]))
   \<and> payload_at (request_plain (call_min\<lparr>arg_safety_threshold := Some ''''\<rparr>))
     [K ''safetySettings''] =
   Inr (Some (JArr [JObj [(''category'', JStr ''HARM_CATEGORY_HATE_SPEECH''), (''threshold'', JStr '''')],
                    JObj [(''category'', JStr ''HARM_CATEGORY_HARASSMENT''), (''threshold'', JStr '''')],
                    JObj [(''category'', JStr ''HARM_CATEGORY_SEXUALLY_EXPLICIT''), (''threshold'', JStr '''')],
                    JObj [(''category'', JStr ''HARM_CATEGORY_DANGEROUS_CONTENT''), (''threshold'', JStr '''')]]))"
proof -
  let ?a = "call_min\<lparr>arg_max_tokens := Some 16, arg_safety_threshold := Some ''BLOCK_NONE''\<rparr>"
  let ?b = "call_min\<lparr>arg_safety_threshold := Some ''''\<rparr>"
  obtain u1 p1 where r1: "request_gemini ?a = Inr (u1, p1)"
    using request_gemini_exists [of ?a "''k''" "''Hello''" 16] by (auto simp add: call_min_def)
  obtain u2 p2 where r2: "request_plain ?b = Inr (u2, p2)"
    using request_plain_exists [of ?b "''k''" "''Hello''"] by (auto simp add: call_min_def)
  have args: "arg_safety_threshold ?a = Some ''BLOCK_NONE''" "arg_safety_threshold ?b = Some ''''"
    by simp_all
  show ?thesis
    using C4_safety_settings [of ?a u1 p1 "''BLOCK_NONE''" ?b u2 p2 "''''"] r1 r2 args
    by (simp add: payload_at_def)
qed

section \<open>The generation parameters\<close>

text \<open>
  Claim C9, as amended.  In \<^verbatim>\<open>generateResponse.py\<close> each of the five numeric parameters
  has a default (8192, 1.0, 0.95, 40 and 1) that the caller can override.  In
  \<^verbatim>\<open>generateResponse-gemini.py\<close> the maximum of output tokens has no default: a call
  without it is a \<^verbatim>\<open>TypeError\<close>, and the other four have the defaults 1.0, 0.95, 40 and 1.
  In both scripts \<^verbatim>\<open>generationConfig\<close> holds the values as bound, whatever they are; a
  call that supplies the required arguments builds its request for every value of the
  numeric ones.
\<close>
theorem C9_generation_config:
  "(request_plain b = Inr (url', payload') \<longrightarrow>
      jpath payload' [K ''generationConfig''] =
        Some (JObj [(''maxOutputTokens'', JInt (dflt 8192 (arg_max_tokens b))),
                    (''temperature'', JFloat (dflt 1.0 (arg_temperature b))),
                    (''topP'', JFloat (dflt 0.95 (arg_top_p b))),
                    (''topK'', JInt (dflt 40 (arg_top_k b))),
                    (''candidateCount'', JInt (dflt 1 (arg_candidate_count b)))]))
   \<and> (request_gemini a = Inr (url, payload) \<and> arg_max_tokens a = Some n \<longrightarrow>
      jpath payload [K ''generationConfig''] =
        Some (JObj [(''maxOutputTokens'', JInt n),
                    (''temperature'', JFloat (dflt 1.0 (arg_temperature a))),
                    (''topP'', JFloat (dflt 0.95 (arg_top_p a))),
                    (''topK'', JInt (dflt 40 (arg_top_k a))),
                    (''candidateCount'', JInt (dflt 1 (arg_candidate_count a)))]))
   \<and> (arg_max_tokens a' = None \<longrightarrow> request_gemini a' = Inl TypeError)
   \<and> (arg_api_key b' = Some k \<and> arg_user_prompt b' = Some u \<and> arg_inline_data b' = None
        \<and> arg_api_version b' = None \<longrightarrow> (\<exists>r. request_plain b' = Inr r))
   \<and> (arg_api_key a'' = Some k' \<and> arg_user_prompt a'' = Some u' \<and> arg_max_tokens a'' = Some n'
        \<longrightarrow> (\<exists>r. request_gemini a'' = Inr r))"
proof (intro conjI impI)
  assume h: "request_plain b = Inr (url', payload')"
  then obtain p where p: "bind_plain b = Inr p" "payload' = payload_plain p"
    using request_plain_Inr by blast
  show "jpath payload' [K ''generationConfig''] =
        Some (JObj [(''maxOutputTokens'', JInt (dflt 8192 (arg_max_tokens b))),
                    (''temperature'', JFloat (dflt 1.0 (arg_temperature b))),
                    (''topP'', JFloat (dflt 0.95 (arg_top_p b))),
                    (''topK'', JInt (dflt 40 (arg_top_k b))),
                    (''candidateCount'', JInt (dflt 1 (arg_candidate_count b)))])"
    unfolding p(2) payload_plain_config bind_plain_fields(3,7,8,9,10) [OF p(1)] ..
next
  assume h: "request_gemini a = Inr (url, payload) \<and> arg_max_tokens a = Some n"
  then obtain p where p: "bind_gemini a = Inr p" "payload = payload_gemini p"
    using request_gemini_Inr by blast
  have n: "gemini_max_tokens p = n"
    using bind_gemini_fields(3) [OF p(1)] h by simp
  show "jpath payload [K ''generationConfig''] =
        Some (JObj [(''maxOutputTokens'', JInt n),
                    (''temperature'', JFloat (dflt 1.0 (arg_temperature a))),
                    (''topP'', JFloat (dflt 0.95 (arg_top_p a))),
                    (''topK'', JInt (dflt 40 (arg_top_k a))),
                    (''candidateCount'', JInt (dflt 1 (arg_candidate_count a)))])"
    unfolding p(2) payload_gemini_config n bind_gemini_fields(6,7,8,9) [OF p(1)] ..
next
  assume "arg_max_tokens a' = None"
  then show "request_gemini a' = Inl TypeError"
    by (simp add: request_gemini_def bind_gemini_def split: option.splits)
next
  assume "arg_api_key b' = Some k \<and> arg_user_prompt b' = Some u \<and> arg_inline_data b' = None
        \<and> arg_api_version b' = None"
  then show "\<exists>r. request_plain b' = Inr r"
    using request_plain_exists [of b' k u] by auto
next
  assume "arg_api_key a'' = Some k' \<and> arg_user_prompt a'' = Some u' \<and> arg_max_tokens a'' = Some n'"
  then show "\<exists>r. request_gemini a'' = Inr r"
    using request_gemini_exists [of a'' k' u' n'] by auto
qed

text \<open>
  Claim C9 as stated fails: in \<^verbatim>\<open>generateResponse-gemini.py\<close> a call that leaves out the
  maximum of output tokens does not fall back on a default.
\<close>

theorem C9_max_tokens_required:
  "request_gemini call_min = Inl TypeError"
  by (simp add: request_gemini_def bind_gemini_def call_min_def)

text \<open>
  Claim C9 on three calls: all defaults, all five values overridden with values out of
  any sensible range, and a call without the maximum of output tokens.
\<close>

theorem C9_generation_config_witness:
  "payload_at (request_plain call_min) [K ''generationConfig''] =
     Inr (Some (JObj [(''maxOutputTokens'', JInt 8192),
                      (''temperature'', JFloat 1.0),
                      (''topP'', JFloat 0.95),
                      (''topK'', JInt 40),
                      (''candidateCount'', JInt 1)]))
   \<and> payload_at
       (request_gemini (call_min\<lparr>arg_max_tokens := Some (- 5), arg_temperature := Some 99,
          arg_top_p := Some (- 2), arg_top_k := Some (- 1), arg_candidate_count := Some 0\<rparr>))
       [K ''generationConfig''] =
     Inr (Some (JObj [(''maxOutputTokens'', JInt (- 5)),
                      (''temperature'', JFloat 99),
                      (''topP'', JFloat (- 2)),
                      (''topK'', JInt (- 1)),
                      (''candidateCount'', JInt 0)]))
   \<and> request_gemini (call_min\<lparr>arg_temperature := Some 0.5\<rparr>) = Inl TypeError"
proof -
  let ?a = "call_min\<lparr>arg_max_tokens := Some (- 5), arg_temperature := Some 99,
          arg_top_p := Some (- 2), arg_top_k := Some (- 1), arg_candidate_count := Some 0\<rparr>"
  let ?a' = "call_min\<lparr>arg_temperature := Some 0.5\<rparr>"
  have k: "arg_api_key call_min = Some ''k'' \<and> arg_user_prompt call_min = Some ''Hello''
      \<and> arg_inline_data call_min = None \<and> arg_api_version call_min = None"
    and k': "arg_api_key ?a = Some ''k'' \<and> arg_user_prompt ?a = Some ''Hello''
      \<and> arg_max_tokens ?a = Some (- 5)"
    and none: "arg_max_tokens ?a' = None"
    by (simp_all add: call_min_def)
  obtain u1 p1 where r1: "request_plain call_min = Inr (u1, p1)"
    using request_plain_exists [of call_min "''k''" "''Hello''"] k by auto
  obtain u2 p2 where r2: "request_gemini ?a = Inr (u2, p2)"
    using request_gemini_exists [of ?a "''k''" "''Hello''" "- 5"] k' by auto
  have args: "arg_max_tokens call_min = None" "arg_temperature call_min = None"
    "arg_top_p call_min = None" "arg_top_k call_min = None" "arg_candidate_count call_min = None"
    by (simp_all add: call_min_def)
  show ?thesis
    using C9_generation_config [of call_min u1 p1 ?a u2 p2 "- 5" ?a'] r1 r2 none k'
    by (simp add: payload_at_def dflt_def args)
qed

section \<open>A falsy system instruction\<close>

text \<open>
  Claim C10.  When the system instruction is supplied and falsy, both scripts build the
  very request they build when it is not supplied, and the payload has no key
  \<^verbatim>\<open>systemInstruction\<close>: truthiness decides, not presence.
\<close>
theorem C10_falsy_system_instruction:
  "(arg_system_instruction a = Some si \<and> \<not> py_truthy si \<longrightarrow>
      request_gemini a = request_gemini (a\<lparr>arg_system_instruction := None\<rparr>)
      \<and> request_plain a = request_plain (a\<lparr>arg_system_instruction := None\<rparr>))
   \<and> (arg_system_instruction a = Some si \<and> \<not> py_truthy si
        \<and> request_gemini a = Inr (url, payload) \<longrightarrow>
      py_in ''systemInstruction'' payload = Inr False)
   \<and> (arg_system_instruction a = Some si \<and> \<not> py_truthy si
        \<and> request_plain a = Inr (url', payload') \<longrightarrow>
      py_in ''systemInstruction'' payload' = Inr False)"
proof (intro conjI impI)
  assume h: "arg_system_instruction a = Some si \<and> \<not> py_truthy si"
  then show "request_gemini a = request_gemini (a\<lparr>arg_system_instruction := None\<rparr>)"
    using request_gemini_drop by blast
  from h show "request_plain a = request_plain (a\<lparr>arg_system_instruction := None\<rparr>)"
    using request_plain_drop by blast
next
  assume h: "arg_system_instruction a = Some si \<and> \<not> py_truthy si
        \<and> request_gemini a = Inr (url, payload)"
  then obtain p where p: "bind_gemini a = Inr p" "payload = payload_gemini p"
    using request_gemini_Inr by blast
  have "gemini_system_instruction p = si"
    using bind_gemini_fields(4) [OF p(1)] h by (simp add: dflt_def)
  then show "py_in ''systemInstruction'' payload = Inr False"
    using h by (simp add: p(2) payload_gemini_in)
next
  assume h: "arg_system_instruction a = Some si \<and> \<not> py_truthy si
        \<and> request_plain a = Inr (url', payload')"
  then obtain p where p: "bind_plain a = Inr p" "payload' = payload_plain p"
    using request_plain_Inr by blast
  have "gemini_system_instruction p = si"
    using bind_plain_fields(4) [OF p(1)] h by (simp add: dflt_def)
  then show "py_in ''systemInstruction'' payload' = Inr False"
    using h by (simp add: p(2) payload_plain_in)
qed

text \<open>Claim C10 on a call that supplies the empty mapping.\<close>

theorem C10_falsy_system_instruction_witness:
  "request_gemini (call_min\<lparr>arg_max_tokens := Some 16, arg_system_instruction := Some (JObj [])\<rparr>)
     = request_gemini (call_min\<lparr>arg_max_tokens := Some 16\<rparr>)
   \<and> request_plain (call_min\<lparr>arg_max_tokens := Some 16, arg_system_instruction := Some (JObj [])\<rparr>)
     = request_plain (call_min\<lparr>arg_max_tokens := Some 16\<rparr>)
   \<and> (case request_gemini (call_min\<lparr>arg_max_tokens := Some 16,
               arg_system_instruction := Some (JObj [])\<rparr>) of
         Inl e \<Rightarrow> Inl e
       | Inr r \<Rightarrow> py_in ''systemInstruction'' (snd r)) = Inr False
   \<and> (case request_plain (call_min\<lparr>arg_max_tokens := Some 16,
               arg_system_instruction := Some (JObj [])\<rparr>) of
         Inl e \<Rightarrow> Inl e
       | Inr r \<Rightarrow> py_in ''systemInstruction'' (snd r)) = Inr False"
proof -
  let ?a = "call_min\<lparr>arg_max_tokens := Some 16, arg_system_instruction := Some (JObj [])\<rparr>"
  have upd: "?a\<lparr>arg_system_instruction := None\<rparr> = call_min\<lparr>arg_max_tokens := Some 16\<rparr>"
    by (simp add: call_min_def)
  have args: "arg_system_instruction ?a = Some (JObj [])" "\<not> py_truthy (JObj [])"
    by simp_all
  obtain u1 p1 where r1: "request_gemini ?a = Inr (u1, p1)"
    using request_gemini_exists [of ?a "''k''" "''Hello''" 16] by (auto simp add: call_min_def)
  obtain u2 p2 where r2: "request_plain ?a = Inr (u2, p2)"
    using request_plain_exists [of ?a "''k''" "''Hello''"] by (auto simp add: call_min_def)
  have eq: "request_gemini ?a = request_gemini (?a\<lparr>arg_system_instruction := None\<rparr>)"
      "request_plain ?a = request_plain (?a\<lparr>arg_system_instruction := None\<rparr>)"
    and ins: "py_in ''systemInstruction'' p1 = Inr False" "py_in ''systemInstruction'' p2 = Inr False"
    using C10_falsy_system_instruction [of ?a "JObj []" u1 p1 u2 p2] args r1 r2 by blast+
  show ?thesis
  proof (intro conjI)
    show "request_gemini ?a = request_gemini (call_min\<lparr>arg_max_tokens := Some 16\<rparr>)"
      using eq(1) unfolding upd .
    show "request_plain ?a = request_plain (call_min\<lparr>arg_max_tokens := Some 16\<rparr>)"
      using eq(2) unfolding upd .
    show "(case request_gemini ?a of Inl e \<Rightarrow> Inl e
           | Inr r \<Rightarrow> py_in ''systemInstruction'' (snd r)) = Inr False"
      by (simp add: r1 ins)
    show "(case request_plain ?a of Inl e \<Rightarrow> Inl e
           | Inr r \<Rightarrow> py_in ''systemInstruction'' (snd r)) = Inr False"
      by (simp add: r2 ins)
  qed
qed

section \<open>Base64: helper facts\<close>

lemma distinct_alphabet: "distinct b64_alphabet"
  by (simp add: b64_alphabet_def)

lemma length_alphabet: "length b64_alphabet = 64"
  by (simp add: b64_alphabet_def)

lemma unat_sextet: "s < 64 \<Longrightarrow> unat s < 64" for s :: byte
  by (simp add: word_less_nat_alt)

lemma a2b_b2a: "s < 64 \<Longrightarrow> a2b (b2a s) = Some s"
proof -
  assume s: "s < 64"
  have "map_of (zip b64_alphabet (map of_nat [0..<64])) (b64_alphabet ! unat s)
        = Some ((map of_nat [0..<64] :: byte list) ! unat s)"
    using unat_sextet [OF s]
    by (intro map_of_zip_nth) (simp_all add: length_alphabet distinct_alphabet)
  also have "(map of_nat [0..<64] :: byte list) ! unat s = s"
    using unat_sextet [OF s] by simp
  finally show ?thesis by (simp add: a2b_def b2a_def)
qed

lemma b2a_in_alphabet: "s < 64 \<Longrightarrow> b2a s \<in> set b64_alphabet"
  using unat_sextet [of s] by (simp add: b2a_def length_alphabet)

lemma b2a_not_pad: "s < 64 \<Longrightarrow> b2a s \<noteq> CHR ''=''"
proof -
  assume "s < 64"
  moreover have "CHR ''='' \<notin> set b64_alphabet" by (simp add: b64_alphabet_def)
  ultimately show ?thesis using b2a_in_alphabet by metis
qed

lemma alphabet_ascii: "c \<in> set b64_alphabet \<Longrightarrow> (of_char c :: nat) < 128"
  by (auto simp add: b64_alphabet_def)

lemma b2a_ascii: "s < 64 \<Longrightarrow> (of_char (b2a s) :: nat) < 128"
  using alphabet_ascii b2a_in_alphabet by blast

lemma byte_masks: "(3::byte) = mask 2" "(15::byte) = mask 4" "(63::byte) = mask 6"
  by (simp_all add: mask_eq_exp_minus_1)

lemma lt64_iff: "(x::byte) < 64 \<longleftrightarrow> x AND mask 6 = x"
  using less_mask_eq [of x 6] and_mask_less' [of 6 x] by auto

lemma bit_index: "2 \<le> n \<Longrightarrow> Suc (Suc (n - 2)) = n" "4 \<le> n \<Longrightarrow> 4 + (n - 4) = n"
  "6 \<le> n \<Longrightarrow> 6 + (n - 6) = n"
  by simp_all

lemma sextet_bounds:
  fixes a b c :: byte
  shows "drop_bit 2 a < 64"
    and "push_bit 4 (a AND 3) OR drop_bit 4 b < 64"
    and "push_bit 2 (b AND 15) OR drop_bit 6 c < 64"
    and "c AND 63 < 64"
    and "push_bit 2 (b AND 15) < 64"
    and "push_bit 4 (a AND 3) < 64"
  unfolding lt64_iff byte_masks
  by (rule bit_word_eqI, (auto simp add: bit_simps dest: bit_imp_le_length)[1])+

lemma first_byte:
  fixes a b :: byte
  shows "push_bit 2 (drop_bit 2 a) OR drop_bit 4 (push_bit 4 (a AND 3) OR drop_bit 4 b) = a"
  unfolding byte_masks
proof (rule bit_word_eqI)
  fix n assume "n < LENGTH(8)"
  then show "bit (push_bit 2 (drop_bit 2 a)
                  OR drop_bit 4 (push_bit 4 (a AND mask 2) OR drop_bit 4 b)) n = bit a n"
    by (cases "2 \<le> n") (auto simp add: bit_simps bit_index)
qed

lemma second_byte:
  fixes a b c :: byte
  shows "push_bit 4 ((push_bit 4 (a AND 3) OR drop_bit 4 b) AND 15)
           OR drop_bit 2 (push_bit 2 (b AND 15) OR drop_bit 6 c) = b"
  unfolding byte_masks
proof (rule bit_word_eqI)
  fix n assume "n < LENGTH(8)"
  then show "bit (push_bit 4 ((push_bit 4 (a AND mask 2) OR drop_bit 4 b) AND mask 4)
                  OR drop_bit 2 (push_bit 2 (b AND mask 4) OR drop_bit 6 c)) n = bit b n"
    by (cases "4 \<le> n") (auto simp add: bit_simps bit_index)
qed

lemma third_byte:
  fixes b c :: byte
  shows "push_bit 6 ((push_bit 2 (b AND 15) OR drop_bit 6 c) AND 3) OR (c AND 63) = c"
  unfolding byte_masks
proof (rule bit_word_eqI)
  fix n assume "n < LENGTH(8)"
  then show "bit (push_bit 6 ((push_bit 2 (b AND mask 4) OR drop_bit 6 c) AND mask 2)
                  OR (c AND mask 6)) n = bit c n"
    by (cases "6 \<le> n") (auto simp add: bit_simps bit_index)
qed

lemma first_byte_padded:
  fixes a :: byte
  shows "push_bit 2 (drop_bit 2 a) OR drop_bit 4 (push_bit 4 (a AND 3)) = a"
  using first_byte [of a 0] by simp

lemma second_byte_padded:
  fixes a b :: byte
  shows "push_bit 4 ((push_bit 4 (a AND 3) OR drop_bit 4 b) AND 15)
           OR drop_bit 2 (push_bit 2 (b AND 15)) = b"
  using second_byte [of a b 0] by simp

lemma loop_quad:
  assumes "s1 < 64" "s2 < 64" "s3 < 64" "s4 < 64"
  shows "a2b_loop (b2a s1 # b2a s2 # b2a s3 # b2a s4 # rest) 0 l p out =
         a2b_loop rest 0 0 0
           (out @ [push_bit 2 s1 OR drop_bit 4 s2,
                   push_bit 4 (s2 AND 15) OR drop_bit 2 s3,
                   push_bit 6 (s3 AND 3) OR s4])"
  using assms by (simp add: a2b_b2a b2a_not_pad)

lemma loop_pad1:
  assumes "s1 < 64" "s2 < 64" "s3 < 64"
  shows "a2b_loop [b2a s1, b2a s2, b2a s3, CHR ''=''] 0 l p out =
         Inr (out @ [push_bit 2 s1 OR drop_bit 4 s2, push_bit 4 (s2 AND 15) OR drop_bit 2 s3])"
  using assms by (simp add: a2b_b2a b2a_not_pad)

lemma loop_pad2:
  assumes "s1 < 64" "s2 < 64"
  shows "a2b_loop [b2a s1, b2a s2, CHR ''='', CHR ''=''] 0 l p out =
         Inr (out @ [push_bit 2 s1 OR drop_bit 4 s2])"
  using assms by (simp add: a2b_b2a b2a_not_pad)

lemma a2b_loop_b2a_base64: "a2b_loop (b2a_base64 bs) 0 0 0 out = Inr (out @ bs)"
proof (induction bs arbitrary: out rule: b2a_base64.induct)
  case (1 a b c rest)
  have "a2b_loop (b2a_base64 (a # b # c # rest)) 0 0 0 out
        = a2b_loop (b2a_base64 rest) 0 0 0 (out @ [a, b, c])"
    by (simp only: b2a_base64.simps append_Cons append_Nil
          loop_quad [OF sextet_bounds(1,2,3,4)] first_byte second_byte third_byte)
  also have "\<dots> = Inr ((out @ [a, b, c]) @ rest)"
    by (rule "1.IH")
  finally show ?case by simp
next
  case (2 a b)
  have "a2b_loop (b2a_base64 [a, b]) 0 0 0 out = Inr (out @ [a, b])"
    by (simp only: b2a_base64.simps loop_pad1 [OF sextet_bounds(1,2,5)]
          first_byte second_byte_padded)
  then show ?case .
next
  case (3 a)
  have "a2b_loop (b2a_base64 [a]) 0 0 0 out = Inr (out @ [a])"
    by (simp only: b2a_base64.simps loop_pad2 [OF sextet_bounds(1,6)] first_byte_padded)
  then show ?case .
next
  case 4
  show ?case by simp
qed

lemma is_ascii_b2a_base64: "is_ascii (b2a_base64 bs)"
proof (induction bs rule: b2a_base64.induct)
  case (1 a b c rest)
  then show ?case
    by (simp add: is_ascii_def b2a_ascii [OF sextet_bounds(1)] b2a_ascii [OF sextet_bounds(2)]
          b2a_ascii [OF sextet_bounds(3)] b2a_ascii [OF sextet_bounds(4)]
          del: push_bit_and)
next
  case (2 a b)
  show ?case
    by (simp add: is_ascii_def b2a_ascii [OF sextet_bounds(1)] b2a_ascii [OF sextet_bounds(2)]
          b2a_ascii [OF sextet_bounds(5)] del: push_bit_and)
next
  case (3 a)
  show ?case
    by (simp add: is_ascii_def b2a_ascii [OF sextet_bounds(1)] b2a_ascii [OF sextet_bounds(6)]
          del: push_bit_and)
next
  case 4
  show ?case by (simp add: is_ascii_def)
qed

lemma b64decode_b64encode: "b64decode (JStr (b64encode bs)) = Inr bs"
  using a2b_loop_b2a_base64 [of bs "[]"]
  by (simp add: b64encode_def a2b_base64_def is_ascii_b2a_base64)

section \<open>Runs: helper facts\<close>

lemmas io_defs = io_bind_def io_return_def io_raise_def io_lift_def emit_def

lemma posts_append: "posts (xs @ ys) = posts xs @ posts ys"
  by (induction xs rule: posts.induct) simp_all

lemma printed_append: "printed (xs @ ys) = printed xs @ printed ys"
  by (induction xs rule: printed.induct) simp_all

lemma opened_append: "opened (xs @ ys) = opened xs @ opened ys"
  by (induction xs rule: opened.induct) simp_all

lemma written_append: "written (xs @ ys) = written xs @ written ys"
  by (induction xs rule: written.induct) simp_all

lemma ok_iff: "ok r \<longleftrightarrow> \<not> (400 \<le> status_code r \<and> status_code r < 600)"
  by (simp add: ok_def raise_for_status_def)

lemma call_gemini_api_error:
  assumes "request_gemini a = Inr (url, payload)"
    and "post env url payload = Inr r"
    and "400 \<le> status_code r" "status_code r < 600"
  shows "call_gemini_api env a w =
           (Inl (HTTPError (status_code r)),
            w\<lparr>trace := trace w @
                 [HttpPost url [(''Content-Type'', ''application/json'')] payload,
                  Print (''Error '' @ str_int (status_code r) @ '': '' @ body_text r)]\<rparr>)"
  using assms
  by (simp add: call_gemini_api_def http_post_def io_defs ok_iff raise_for_status_def)

lemma call_gemini_api_plain_error:
  assumes "request_plain a = Inr (url, payload)"
    and "post env url payload = Inr r"
    and "400 \<le> status_code r" "status_code r < 600"
  shows "call_gemini_api_plain env a w =
           (Inl (HTTPError (status_code r)),
            w\<lparr>trace := trace w @
                 [HttpPost url [(''Content-Type'', ''application/json'')] payload]\<rparr>)"
  using assms
  by (simp add: call_gemini_api_plain_def http_post_def io_defs raise_for_status_def)

lemma main_call_fails:
  assumes "4 \<le> length argv"
    and "cli_args env argv w = (Inr a, w')"
    and "call_gemini_api env a w' = (Inl e, w'')"
  shows "main env argv w = (Inl e, w'')"
  using assms by (simp add: main_def io_bind_def)

lemma cli_args_demo:
  "cli_args env_429 argv_demo world0 =
     (Inr \<lparr> arg_api_key = Some ''secret'',
            arg_user_prompt = Some ''Describe the image.'',
            arg_max_tokens = Some 64,
            arg_system_instruction =
              Some (JObj [(''parts'', JArr [JObj [(''text'', JStr ''Be brief.'')]])]),
            arg_inline_data = Some (JObj [(''mime_type'', JStr ''image/png''),
                                          (''data'', JStr (b64encode [137, 80, 78, 71, 13]))]),
            arg_temperature = None, arg_top_p = None, arg_top_k = None,
            arg_candidate_count = None, arg_safety_threshold = None,
            arg_api_version = None, arg_model = None \<rparr>,
      \<lparr> trace = [OpenText ''system.txt'', OpenText ''prompt.txt'', OpenBinary ''dot.png'',
                  OpenText ''api.key''],
        clock = 0 \<rparr>)"
  by (simp add: cli_args_def read_inline_data_def open_read_def open_read_binary_def io_defs
        env_429_def env_demo_def argv_demo_def world0_def py_strip_def py_isspace_def Let_def)

lemma map_of_in_keys: "map_of kvs k = Some v \<Longrightarrow> k \<in> fst ` set kvs"
  by (metis domI dom_map_of_conv_image_fst)

lemma io_bind_return: "io_bind m io_return = m"
  by (rule ext) (simp add: io_defs split: prod.splits sum.splits)

lemma io_bind_lift: "io_bind (io_lift (Inr x)) f = f x"
  by (rule ext) (simp add: io_defs)

lemma str_nat_digit: "str_nat 0 = ''0''" "str_nat (Suc 0) = ''1''"
  by code_simp+

lemma write_part_png:
  assumes "map_of p ''inline_data'' = Some (JObj i)"
    and "map_of i ''mime_type'' = Some (JStr ''image/png'')"
    and "map_of i ''data'' = Some d"
    and "b64decode d = Inr bs"
    and "guess_extension env ''image/png'' = Some ''.png''"
    and "can_write env (''output_'' @ now env (clock w) @ ''_c'' @ str_nat idx @ ''_p''
                          @ str_nat part_idx @ ''.png'')"
  shows "write_part env idx part_idx (JObj p) w =
           (Inr (),
            w\<lparr>trace := trace w @
                 [WriteFile (''output_'' @ now env (clock w) @ ''_c'' @ str_nat idx @ ''_p''
                               @ str_nat part_idx @ ''.png'') bs,
                  Print (''Binary output written to: '' @ ''output_'' @ now env (clock w)
                           @ ''_c'' @ str_nat idx @ ''_p'' @ str_nat part_idx @ ''.png'')],
               clock := Suc (clock w)\<rparr>)"
  using assms map_of_in_keys [OF assms(1)]
  by (simp add: write_part_def read_clock_def write_binary_def ebind_def io_defs Let_def)

lemma write_outputs_two:
  assumes "map_of r ''candidates'' = Some (JArr [c0, c1])"
  shows "write_outputs env (JObj r) =
           io_bind (write_candidate env 0 c0) (\<lambda>_. write_candidate env 1 c1)"
  using assms map_of_in_keys [OF assms]
  by (simp add: write_outputs_def ebind_def io_bind_return io_bind_lift)

lemma posts_bind:
  assumes "\<And>w. posts (trace (snd (m w))) = posts (trace w)"
    and "\<And>x w. posts (trace (snd (f x w))) = posts (trace w)"
  shows "posts (trace (snd (io_bind m f w))) = posts (trace w)"
proof (cases "m w")
  case (Pair r w')
  then have w': "posts (trace w') = posts (trace w)"
    using assms(1) [of w] by simp
  show ?thesis
  proof (cases r)
    case (Inl e)
    with Pair w' show ?thesis by (simp add: io_bind_def)
  next
    case (Inr x)
    with Pair w' assms(2) [of x w'] show ?thesis by (simp add: io_bind_def)
  qed
qed

lemma posts_bind_after:
  assumes "\<And>x w. posts (trace (snd (f x w))) = posts (trace w)"
  shows "posts (trace (snd (io_bind m f w))) = posts (trace (snd (m w)))"
proof (cases "m w")
  case (Pair r w')
  show ?thesis
  proof (cases r)
    case (Inl e)
    with Pair show ?thesis by (simp add: io_bind_def)
  next
    case (Inr x)
    with Pair assms [of x w'] show ?thesis by (simp add: io_bind_def)
  qed
qed

lemma posts_simple:
  "posts (trace (snd (io_lift r w))) = posts (trace w)"
  "posts (trace (snd (io_return x w))) = posts (trace w)"
  "posts (trace (snd (io_raise e w))) = posts (trace w)"
  "posts (trace (snd (read_clock env w))) = posts (trace w)"
  "posts (trace (snd (emit (Print s) w))) = posts (trace w)"
  "posts (trace (snd (emit (PrintJson j) w))) = posts (trace w)"
  "posts (trace (snd (write_binary env path bs w))) = posts (trace w)"
  by (simp_all add: io_defs read_clock_def write_binary_def posts_append)

lemma posts_if:
  assumes "posts (trace (snd (m w))) = posts (trace w)"
    and "posts (trace (snd (m' w))) = posts (trace w)"
  shows "posts (trace (snd ((if b then m else m') w))) = posts (trace w)"
  using assms by simp

lemma posts_write_part:
  "posts (trace (snd (write_part env idx part_idx part w))) = posts (trace w)"
  unfolding write_part_def Let_def
  by (intro posts_bind posts_if posts_simple)

lemma posts_write_parts:
  "posts (trace (snd (write_parts env idx part_idx parts w))) = posts (trace w)"
proof (induction parts arbitrary: part_idx w)
  case Nil
  show ?case by (simp add: posts_simple)
next
  case (Cons part rest)
  show ?case
    unfolding write_parts.simps
    by (intro posts_bind posts_write_part Cons.IH)
qed

lemma posts_write_candidate:
  "posts (trace (snd (write_candidate env idx candidate w))) = posts (trace w)"
  unfolding write_candidate_def
  by (intro posts_bind posts_if posts_simple posts_write_parts)

lemma posts_write_candidates:
  "posts (trace (snd (write_candidates env idx candidates w))) = posts (trace w)"
proof (induction candidates arbitrary: idx w)
  case Nil
  show ?case by (simp add: posts_simple)
next
  case (Cons candidate rest)
  show ?case
    unfolding write_candidates.simps
    by (intro posts_bind posts_write_candidate Cons.IH)
qed

lemma posts_write_outputs:
  "posts (trace (snd (write_outputs env result w))) = posts (trace w)"
  unfolding write_outputs_def
  by (intro posts_bind posts_if posts_simple posts_write_candidates)

lemma posts_call_gemini_api:
  assumes "request_gemini a = Inr (url, payload)"
  shows "posts (trace (snd (call_gemini_api env a w))) = posts (trace w) @ [(url, payload)]"
proof -
  have post: "posts (trace (snd (http_post env url h payload w))) = posts (trace w) @ [(url, payload)]"
    for h
    by (simp add: http_post_def io_defs posts_append)
  show ?thesis
    unfolding call_gemini_api_def assms sum.case prod.case
    by (subst posts_bind_after) (intro posts_bind posts_if posts_simple post)+
qed

lemma cli_args_run:
  assumes "5 \<le> length argv"
    and "py_int env (argv ! 1) = Some n"
    and "read_text env (argv ! 2) = Some system_text"
    and "read_text env (argv ! 3) = Some prompt"
    and "guess_type env (argv ! 4) = Inr guessed"
    and "read_bytes env (argv ! 4) = Some bs"
    and "read_text env ''api.key'' = Some key"
  shows "cli_args env argv w =
     (Inr \<lparr> arg_api_key = Some (py_strip key),
            arg_user_prompt = Some prompt,
            arg_max_tokens = Some n,
            arg_system_instruction =
              Some (JObj [(''parts'', JArr [JObj [(''text'', JStr system_text)]])]),
            arg_inline_data =
              Some (JObj [(''mime_type'',
                           JStr (case guessed of
                                   None \<Rightarrow> ''application/octet-stream''
                                 | Some m \<Rightarrow> if m = [] then ''application/octet-stream'' else m)),
                          (''data'', JStr (b64encode bs))]),
            arg_temperature = None, arg_top_p = None, arg_top_k = None,
            arg_candidate_count = None, arg_safety_threshold = None,
            arg_api_version = None, arg_model = None \<rparr>,
      w\<lparr>trace := trace w @ [OpenText (argv ! 2), OpenText (argv ! 3), OpenBinary (argv ! 4),
                             OpenText ''api.key'']\<rparr>)"
  using assms
  by (simp add: cli_args_def read_inline_data_def open_read_def open_read_binary_def io_defs
        Let_def)

lemma posts_main:
  assumes "4 \<le> length argv"
    and "cli_args env argv w = (Inr a, w')"
    and "request_gemini a = Inr (url, payload)"
  shows "posts (trace (snd (main env argv w))) = posts (trace w') @ [(url, payload)]"
proof -
  have "main env argv w =
          io_bind (call_gemini_api env a)
            (\<lambda>result. io_bind (write_outputs env result) (\<lambda>_. emit (PrintJson result))) w'"
    using assms(1,2) by (simp add: main_def io_bind_def)
  also have "posts (trace (snd \<dots>)) = posts (trace (snd (call_gemini_api env a w')))"
    by (intro posts_bind_after posts_bind posts_write_outputs posts_simple)
  finally show ?thesis
    by (simp add: posts_call_gemini_api [OF assms(3)])
qed

lemma str_int_429: "str_int 429 = ''429''"
  by code_simp

lemma world0_simps: "trace world0 = []" "clock world0 = 0"
  by (simp_all add: world0_def)

lemma b64_samples:
  "b64decode (JStr ''TWFu'') = Inr [77, 97, 110]"
  "b64decode (JStr ''TQ=='') = Inr [77]"
  "b64encode [137, 80, 78, 71, 13] = ''iVBORw0=''"
  by code_simp+

lemma call_gemini_api_no_error:
  assumes "request_gemini a = Inr (url, payload)"
    and "post env url payload = Inr r"
    and "ok r"
  shows "call_gemini_api env a w =
           (response_json r,
            w\<lparr>trace := trace w @
                 [HttpPost url [(''Content-Type'', ''application/json'')] payload]\<rparr>)"
  using assms
  by (simp add: call_gemini_api_def http_post_def io_defs)

lemma write_outputs_no_candidates:
  "''candidates'' \<notin> fst ` set r \<Longrightarrow> write_outputs env (JObj r) w = (Inr (), w)"
  by (simp add: write_outputs_def io_defs)

lemma write_candidate_no_content:
  "''content'' \<notin> fst ` set c \<Longrightarrow> write_candidate env idx (JObj c) w = (Inr (), w)"
  by (simp add: write_candidate_def has_parts_def ebind_def io_defs)

lemma write_candidate_no_parts:
  "map_of c ''content'' = Some (JObj t) \<Longrightarrow> ''parts'' \<notin> fst ` set t \<Longrightarrow>
     write_candidate env idx (JObj c) w = (Inr (), w)"
  using map_of_in_keys [of c "''content''" "JObj t"]
  by (simp add: write_candidate_def has_parts_def ebind_def io_defs)

lemma write_part_no_inline_data:
  "''inline_data'' \<notin> fst ` set p \<Longrightarrow> write_part env idx part_idx (JObj p) w = (Inr (), w)"
  by (simp add: write_part_def io_defs)

lemma write_part_no_mime_type:
  assumes "map_of p ''inline_data'' = Some (JObj i)"
    and "map_of i ''mime_type'' = None"
    and "map_of i ''data'' = Some d"
    and "b64decode d = Inr bs"
    and "guess_extension env ''application/octet-stream'' = None"
    and "can_write env (''output_'' @ now env (clock w) @ ''_c'' @ str_nat idx @ ''_p''
                          @ str_nat part_idx @ ''.bin'')"
  shows "fst (write_part env idx part_idx (JObj p) w) = Inr ()"
  using assms map_of_in_keys [OF assms(1)]
  by (simp add: write_part_def read_clock_def write_binary_def ebind_def io_defs Let_def)

lemma write_part_no_data:
  assumes "map_of p ''inline_data'' = Some (JObj i)"
    and "map_of i ''data'' = None"
    and "py_guess_extension env (case map_of i ''mime_type'' of
            None \<Rightarrow> JStr ''application/octet-stream'' | Some v \<Rightarrow> v) = Inr g"
  shows "fst (write_part env idx part_idx (JObj p) w) = Inl KeyError"
  using assms map_of_in_keys [OF assms(1)]
  by (simp add: write_part_def read_clock_def ebind_def io_defs Let_def)

lemma write_part_skip:
  "py_in ''inline_data'' q = Inr False \<Longrightarrow> write_part env idx part_idx q w = (Inr (), w)"
  by (simp add: write_part_def io_defs)

lemma write_parts_skip:
  "\<forall>q\<in>set qs. py_in ''inline_data'' q = Inr False \<Longrightarrow>
     write_parts env idx part_idx qs w = (Inr (), w)"
  by (induction qs arbitrary: part_idx) (simp_all add: write_part_skip io_defs)

lemma write_parts_prefix:
  "\<forall>q\<in>set pre. py_in ''inline_data'' q = Inr False \<Longrightarrow>
     write_parts env idx part_idx (pre @ rest) w =
       write_parts env idx (part_idx + length pre) rest w"
  by (induction pre arbitrary: part_idx) (simp_all add: write_part_skip io_bind_def)

lemma write_parts_one_png:
  assumes "\<forall>q\<in>set (pre @ suf). py_in ''inline_data'' q = Inr False"
    and "map_of p ''inline_data'' = Some (JObj i)"
    and "map_of i ''mime_type'' = Some (JStr ''image/png'')"
    and "map_of i ''data'' = Some d"
    and "b64decode d = Inr bs"
    and "guess_extension env ''image/png'' = Some ''.png''"
    and "can_write env (''output_'' @ now env (clock w) @ ''_c'' @ str_nat idx @ ''_p''
                          @ str_nat (length pre) @ ''.png'')"
  shows "write_parts env idx 0 (pre @ JObj p # suf) w =
           (Inr (),
            w\<lparr>trace := trace w @
                 [WriteFile (''output_'' @ now env (clock w) @ ''_c'' @ str_nat idx @ ''_p''
                               @ str_nat (length pre) @ ''.png'') bs,
                  Print (''Binary output written to: '' @ ''output_'' @ now env (clock w)
                           @ ''_c'' @ str_nat idx @ ''_p'' @ str_nat (length pre) @ ''.png'')],
               clock := Suc (clock w)\<rparr>)"
proof -
  have pre: "\<forall>q\<in>set pre. py_in ''inline_data'' q = Inr False"
    and suf: "\<forall>q\<in>set suf. py_in ''inline_data'' q = Inr False"
    using assms(1) by auto
  have "write_parts env idx 0 (pre @ JObj p # suf) w =
          write_parts env idx (length pre) (JObj p # suf) w"
    using write_parts_prefix [OF pre, of env idx 0 "JObj p # suf" w] by simp
  also have "\<dots> = (Inr (),
            w\<lparr>trace := trace w @
                 [WriteFile (''output_'' @ now env (clock w) @ ''_c'' @ str_nat idx @ ''_p''
                               @ str_nat (length pre) @ ''.png'') bs,
                  Print (''Binary output written to: '' @ ''output_'' @ now env (clock w)
                           @ ''_c'' @ str_nat idx @ ''_p'' @ str_nat (length pre) @ ''.png'')],
               clock := Suc (clock w)\<rparr>)"
    by (simp add: io_bind_def write_part_png [OF assms(2-7)] write_parts_skip [OF suf])
  finally show ?thesis .
qed

lemma write_candidate_parts:
  assumes "map_of c ''content'' = Some (JObj t)"
    and "map_of t ''parts'' = Some (JArr parts)"
  shows "write_candidate env idx (JObj c) = write_parts env idx 0 parts"
proof -
  have "has_parts (JObj c) = Inr True"
    using assms map_of_in_keys [OF assms(1)] map_of_in_keys [OF assms(2)]
    by (simp add: has_parts_def ebind_def)
  then show ?thesis
    using assms by (simp add: write_candidate_def ebind_def io_bind_lift)
qed

lemma digit_chars: "\<forall>n\<in>set [0..<10]. is_digit (char_of (48 + n))"
  by code_simp

lemma digit_char: "n < 10 \<Longrightarrow> is_digit (char_of (48 + n))" for n :: nat
  using digit_chars by simp

lemma str_nat_digits: "\<forall>c\<in>set (str_nat n). is_digit c"
proof (induction n rule: str_nat.induct)
  case (1 n)
  show ?case
  proof (cases "n < 10")
    case True
    then show ?thesis by (simp add: str_nat.simps [of n] digit_char)
  next
    case False
    then show ?thesis
      using "1.IH" by (simp add: str_nat.simps [of n] digit_char)
  qed
qed

lemma takeWhile_digits:
  assumes "\<forall>c\<in>set ds. is_digit c" and "\<not> is_digit x"
  shows "takeWhile is_digit (ds @ x # rest) = ds"
  using assms by (simp add: takeWhile_append2)

lemma not_digit_p: "\<not> is_digit CHR ''p''"
  by (simp add: is_digit_def)

lemma names_differ:
  "''output_'' @ t0 @ ''_c0_p'' @ str_nat k0 @ ''.png''
     \<noteq> ''output_'' @ t1 @ ''_c1_p'' @ str_nat k1 @ ''.png''"
proof
  assume "''output_'' @ t0 @ ''_c0_p'' @ str_nat k0 @ ''.png''
            = ''output_'' @ t1 @ ''_c1_p'' @ str_nat k1 @ ''.png''"
  then have "(t0 @ ''_c0_p'' @ str_nat k0) @ ''.png'' = (t1 @ ''_c1_p'' @ str_nat k1) @ ''.png''"
    by simp
  then have eq: "t0 @ ''_c0_p'' @ str_nat k0 = t1 @ ''_c1_p'' @ str_nat k1"
    by (simp only: append_same_eq)
  then have "rev (t0 @ ''_c0_p'' @ str_nat k0) = rev (t1 @ ''_c1_p'' @ str_nat k1)"
    by simp
  then have r: "rev (str_nat k0) @ CHR ''p'' # (''_0c_'' @ rev t0)
                = rev (str_nat k1) @ CHR ''p'' # (''_1c_'' @ rev t1)"
    by simp
  have d: "\<forall>c\<in>set (rev (str_nat k)). is_digit c" for k
    using str_nat_digits [of k] by simp
  have "rev (str_nat k0) = takeWhile is_digit (rev (str_nat k0) @ CHR ''p'' # (''_0c_'' @ rev t0))"
    using takeWhile_digits [OF d not_digit_p] by simp
  also have "\<dots> = takeWhile is_digit (rev (str_nat k1) @ CHR ''p'' # (''_1c_'' @ rev t1))"
    by (simp only: r)
  also have "\<dots> = rev (str_nat k1)"
    using takeWhile_digits [OF d not_digit_p] by simp
  finally have "str_nat k0 = str_nat k1"
    by simp
  with eq have "(t0 @ ''_c0_p'') @ str_nat k1 = (t1 @ ''_c1_p'') @ str_nat k1"
    by simp
  then have "t0 @ ''_c0_p'' = t1 @ ''_c1_p''"
    by (simp only: append_same_eq)
  then have "''_c0_p'' = ''_c1_p''"
    by (subst (asm) append_eq_append_conv) simp_all
  then show False by simp
qed

lemma str_nat_two: "str_nat (Suc (Suc 0)) = ''2''"
  by code_simp

lemma main_guess_type_raises:
  assumes "5 \<le> length argv"
    and "py_int env (argv ! 1) = Some n"
    and "read_text env (argv ! 2) = Some system_text"
    and "read_text env (argv ! 3) = Some prompt"
    and "guess_type env (argv ! 4) = Inl e"
  shows "main env argv w =
           (Inl e, w\<lparr>trace := trace w @ [OpenText (argv ! 2), OpenText (argv ! 3)]\<rparr>)"
  using assms
  by (simp add: main_def cli_args_def read_inline_data_def open_read_def io_defs Let_def)

section \<open>The attachment\<close>

text \<open>
  Claim C2.  When the command line names an attachment, \<^verbatim>\<open>mimetypes.guess_type\<close> returns
  on its name and the files can be read, the run makes one request; the \<^verbatim>\<open>parts\<close> of its payload are two, the text part and the
  inline-data part, and the \<^verbatim>\<open>data\<close> of the second is a base64 string that decodes to
  exactly the bytes of the file.
\<close>

theorem C2_attachment_round_trip:
  assumes "5 \<le> length argv"
    and "py_int env (argv ! 1) = Some n"
    and "read_text env (argv ! 2) = Some system_text"
    and "read_text env (argv ! 3) = Some prompt"
    and "guess_type env (argv ! 4) = Inr guessed"
    and "read_bytes env (argv ! 4) = Some bs"
    and "read_text env ''api.key'' = Some key"
  shows "\<exists>url payload mime.
           posts (trace (snd (main env argv w))) = posts (trace w) @ [(url, payload)]
         \<and> jpath payload [K ''contents'', I 0, K ''parts''] =
             Some (JArr [JObj [(''text'', JStr prompt)],
                         JObj [(''inline_data'',
                                JObj [(''mime_type'', JStr mime),
                                      (''data'', JStr (b64encode bs))])]])
         \<and> jpath payload [K ''contents'', I 0, K ''parts'', I 1, K ''inline_data'', K ''data'']
             = Some (JStr (b64encode bs))
         \<and> b64decode (JStr (b64encode bs)) = Inr bs"
proof -
  let ?mime = "case guessed of
                 None \<Rightarrow> ''application/octet-stream''
               | Some m \<Rightarrow> if m = [] then ''application/octet-stream'' else m"
  let ?inline = "JObj [(''mime_type'', JStr ?mime), (''data'', JStr (b64encode bs))]"
  obtain a w' where run: "cli_args env argv w = (Inr a, w')"
    and a: "arg_api_key a = Some (py_strip key)" "arg_user_prompt a = Some prompt"
      "arg_max_tokens a = Some n" "arg_inline_data a = Some ?inline"
    and w': "w' = w\<lparr>trace := trace w @ [OpenText (argv ! 2), OpenText (argv ! 3),
                                         OpenBinary (argv ! 4), OpenText ''api.key'']\<rparr>"
    using cli_args_run [OF assms, of w] by simp
  obtain url payload where req: "request_gemini a = Inr (url, payload)"
    using request_gemini_exists [OF a(1,2,3)] by blast
  then obtain p where p: "bind_gemini a = Inr p" "payload = payload_gemini p"
    using request_gemini_Inr by blast
  have f: "gemini_user_prompt p = prompt" "gemini_inline_data p = ?inline"
    using bind_gemini_fields(2,5) [OF p(1)] a by (simp_all add: dflt_def)
  have parts: "jpath payload [K ''contents'', I 0, K ''parts''] =
             Some (JArr [JObj [(''text'', JStr prompt)], JObj [(''inline_data'', ?inline)]])"
    by (simp add: p(2) payload_gemini_contents parts_gemini_def f Let_def)
  have data: "jpath payload [K ''contents'', I 0, K ''parts'', I 1, K ''inline_data'', K ''data'']
             = Some (JStr (b64encode bs))"
    by (simp add: p(2) payload_gemini_contents parts_gemini_def f Let_def)
  have "posts (trace (snd (main env argv w))) = posts (trace w') @ [(url, payload)]"
    using posts_main [OF _ run req] assms(1) by simp
  then have "posts (trace (snd (main env argv w))) = posts (trace w) @ [(url, payload)]"
    by (simp add: w' posts_append)
  with parts data b64decode_b64encode show ?thesis by blast
qed

text \<open>Claim C2 on the sample directory, whose attachment has five bytes.\<close>

theorem C2_attachment_round_trip_witness:
  "(case posts (trace (snd (main env_demo argv_demo world0))) of
      [(url, payload)] \<Rightarrow>
        jpath payload [K ''contents'', I 0, K ''parts'', I 1, K ''inline_data'', K ''data'']
    | _ \<Rightarrow> None) = Some (JStr ''iVBORw0='')
   \<and> b64decode (JStr ''iVBORw0='') = Inr [137, 80, 78, 71, 13]"
proof -
  have hyps: "5 \<le> length argv_demo" "py_int env_demo (argv_demo ! 1) = Some 64"
    "read_text env_demo (argv_demo ! 2) = Some ''Be brief.''"
    "read_text env_demo (argv_demo ! 3) = Some ''Describe the image.''"
    "guess_type env_demo (argv_demo ! 4) = Inr (Some ''image/png'')"
    "read_bytes env_demo (argv_demo ! 4) = Some [137, 80, 78, 71, 13]"
    "read_text env_demo ''api.key'' = Some ''secret''"
    by (simp_all add: argv_demo_def env_demo_def)
  obtain url payload mime where
    "posts (trace (snd (main env_demo argv_demo world0))) = posts (trace world0) @ [(url, payload)]"
    "jpath payload [K ''contents'', I 0, K ''parts'', I 1, K ''inline_data'', K ''data'']
       = Some (JStr (b64encode [137, 80, 78, 71, 13]))"
    "b64decode (JStr (b64encode [137, 80, 78, 71, 13])) = Inr [137, 80, 78, 71, 13]"
    using C2_attachment_round_trip [OF hyps, of world0] by blast
  then show ?thesis
    by (simp add: world0_simps b64_samples)
qed

section \<open>A status that is an error\<close>

text \<open>
  Claim C5, as amended.  For a response whose status is from 400 to 599, the statuses
  that \<^verbatim>\<open>requests\<close> reports as errors, \<^verbatim>\<open>call_gemini_api\<close> of
  \<^verbatim>\<open>generateResponse-gemini.py\<close> makes its one request, prints the status and the body
  and raises \<^verbatim>\<open>HTTPError\<close>; the script does not catch it, runs nothing after it and ends
  with status 1.  \<^verbatim>\<open>call_gemini_api\<close> of \<^verbatim>\<open>generateResponse.py\<close> makes its one request
  and raises \<^verbatim>\<open>HTTPError\<close> without printing.  Neither asks a second time, and neither
  returns a value.
\<close>

theorem C5_error_status:
  "(request_gemini a = Inr (url, payload) \<and> post env url payload = Inr r
      \<and> 400 \<le> status_code r \<and> status_code r < 600 \<longrightarrow>
      call_gemini_api env a w =
        (Inl (HTTPError (status_code r)),
         w\<lparr>trace := trace w @
              [HttpPost url [(''Content-Type'', ''application/json'')] payload,
               Print (''Error '' @ str_int (status_code r) @ '': '' @ body_text r)]\<rparr>))
   \<and> (4 \<le> length argv \<and> cli_args env argv w = (Inr a, w')
        \<and> request_gemini a = Inr (url, payload) \<and> post env url payload = Inr r
        \<and> 400 \<le> status_code r \<and> status_code r < 600 \<longrightarrow>
      main env argv w =
        (Inl (HTTPError (status_code r)),
         w'\<lparr>trace := trace w' @
              [HttpPost url [(''Content-Type'', ''application/json'')] payload,
               Print (''Error '' @ str_int (status_code r) @ '': '' @ body_text r)]\<rparr>)
      \<and> exit_status (fst (main env argv w)) = 1)
   \<and> (request_plain b = Inr (url', payload') \<and> post env url' payload' = Inr r'
        \<and> 400 \<le> status_code r' \<and> status_code r' < 600 \<longrightarrow>
      call_gemini_api_plain env b w =
        (Inl (HTTPError (status_code r')),
         w\<lparr>trace := trace w @
              [HttpPost url' [(''Content-Type'', ''application/json'')] payload']\<rparr>))"
proof (intro conjI impI)
  assume "request_gemini a = Inr (url, payload) \<and> post env url payload = Inr r
      \<and> 400 \<le> status_code r \<and> status_code r < 600"
  then show "call_gemini_api env a w =
        (Inl (HTTPError (status_code r)),
         w\<lparr>trace := trace w @
              [HttpPost url [(''Content-Type'', ''application/json'')] payload,
               Print (''Error '' @ str_int (status_code r) @ '': '' @ body_text r)]\<rparr>)"
    using call_gemini_api_error by blast
next
  assume h: "4 \<le> length argv \<and> cli_args env argv w = (Inr a, w')
        \<and> request_gemini a = Inr (url, payload) \<and> post env url payload = Inr r
        \<and> 400 \<le> status_code r \<and> status_code r < 600"
  then have "call_gemini_api env a w' =
        (Inl (HTTPError (status_code r)),
         w'\<lparr>trace := trace w' @
              [HttpPost url [(''Content-Type'', ''application/json'')] payload,
               Print (''Error '' @ str_int (status_code r) @ '': '' @ body_text r)]\<rparr>)"
    using call_gemini_api_error by blast
  with h show m: "main env argv w =
        (Inl (HTTPError (status_code r)),
         w'\<lparr>trace := trace w' @
              [HttpPost url [(''Content-Type'', ''application/json'')] payload,
               Print (''Error '' @ str_int (status_code r) @ '': '' @ body_text r)]\<rparr>)"
    using main_call_fails by blast
  show "exit_status (fst (main env argv w)) = 1"
    by (simp add: m)
next
  assume "request_plain b = Inr (url', payload') \<and> post env url' payload' = Inr r'
        \<and> 400 \<le> status_code r' \<and> status_code r' < 600"
  then show "call_gemini_api_plain env b w =
        (Inl (HTTPError (status_code r')),
         w\<lparr>trace := trace w @
              [HttpPost url' [(''Content-Type'', ''application/json'')] payload']\<rparr>)"
    using call_gemini_api_plain_error by blast
qed

text \<open>Claim C5 on the sample directory with a service that answers 429, for both scripts.\<close>

theorem C5_error_status_witness:
  \<open>fst (main env_429 argv_demo world0) = Inl (HTTPError 429)
   \<and> exit_status (fst (main env_429 argv_demo world0)) = 1
   \<and> printed (trace (snd (main env_429 argv_demo world0))) = [''Error 429: {"error":"rate limited"}'']
   \<and> length (posts (trace (snd (main env_429 argv_demo world0)))) = 1
   \<and> fst (call_gemini_api_plain env_429 call_min world0) = Inl (HTTPError 429)
   \<and> length (posts (trace (snd (call_gemini_api_plain env_429 call_min world0)))) = 1\<close>
proof -
  let ?r = \<open>\<lparr> status_code = 429, body_text = ''{"error":"rate limited"}'',
              body_json = Some (JObj [(''error'', JStr ''rate limited'')]) \<rparr>\<close>
  obtain a w' where run: "cli_args env_429 argv_demo world0 = (Inr a, w')"
    and a: "arg_api_key a = Some ''secret''" "arg_user_prompt a = Some ''Describe the image.''"
      "arg_max_tokens a = Some 64"
    and w': "trace w' = [OpenText ''system.txt'', OpenText ''prompt.txt'', OpenBinary ''dot.png'',
                  OpenText ''api.key'']"
    using cli_args_demo by simp
  obtain url payload where req: "request_gemini a = Inr (url, payload)"
    using request_gemini_exists [OF a] by blast
  obtain url' payload' where req': "request_plain call_min = Inr (url', payload')"
    using request_plain_exists [of call_min "''k''" "''Hello''"] by (auto simp add: call_min_def)
  have post: "post env_429 url payload = Inr ?r" "post env_429 url' payload' = Inr ?r"
    by (simp_all add: env_429_def)
  have len: "4 \<le> length argv_demo"
    by (simp add: argv_demo_def)
  have status: "400 \<le> status_code ?r" "status_code ?r < 600"
    by simp_all
  have m: "main env_429 argv_demo world0 =
        (Inl (HTTPError 429),
         w'\<lparr>trace := trace w' @
              [HttpPost url [(''Content-Type'', ''application/json'')] payload,
               Print (''Error '' @ str_int 429 @ '': '' @ body_text ?r)]\<rparr>)"
    and e: "exit_status (fst (main env_429 argv_demo world0)) = 1"
    and c: "call_gemini_api_plain env_429 call_min world0 =
        (Inl (HTTPError 429),
         world0\<lparr>trace := trace world0 @
              [HttpPost url' [(''Content-Type'', ''application/json'')] payload']\<rparr>)"
    using C5_error_status [of a url payload env_429 ?r world0 argv_demo w' call_min url' payload' ?r]
      run req req' post len status by simp_all
  show ?thesis
    by (simp add: m c e w' str_int_429 world0_simps)
qed

text \<open>
  Claim C5 as stated fails: on status 429 \<^verbatim>\<open>call_gemini_api\<close> of \<^verbatim>\<open>generateResponse.py\<close>
  raises and has printed nothing.
\<close>

theorem C5_plain_prints_nothing:
  "fst (call_gemini_api_plain env_429 call_min world0) = Inl (HTTPError 429)
   \<and> printed (trace (snd (call_gemini_api_plain env_429 call_min world0))) = []"
proof -
  obtain url payload where r: "request_plain call_min = Inr (url, payload)"
    using request_plain_exists [of call_min "''k''" "''Hello''"] by (auto simp add: call_min_def)
  show ?thesis
    by (simp add: call_gemini_api_plain_def r http_post_def io_defs raise_for_status_def
          env_429_def world0_def)
qed

section \<open>The files of the answer\<close>

text \<open>
  Claim C6 does not hold of the code.  The keys \<^verbatim>\<open>candidates\<close>, \<^verbatim>\<open>content\<close>, \<^verbatim>\<open>parts\<close>
  and \<^verbatim>\<open>inline_data\<close> are tested before they are read and \<^verbatim>\<open>mime_type\<close> has a
  default, as the lemmas above show; \<^verbatim>\<open>data\<close> is read by subscript, so an inline part
  without it raises \<^verbatim>\<open>KeyError\<close>, whatever the outside world is.
\<close>

theorem C6_missing_data_raises:
  "fst (write_outputs env result_no_data w) = Inl KeyError"
  by (simp add: write_outputs_def result_no_data_def write_candidate_def has_parts_def
        write_part_def read_clock_def ebind_def io_defs Let_def split: option.splits)

text \<open>
  Claim C7.  For an answer with two candidates, each with one part whose inline data is
  of type \<^verbatim>\<open>image/png\<close> and valid base64, beside any number of parts without inline
  data, in a directory that can be written to and with \<^verbatim>\<open>image/png\<close> mapped to
  \<^verbatim>\<open>.png\<close>, the run writes exactly two files: each name is made of the prefix, the
  time, the index of the candidate, the index of the part among the parts of its
  candidate and \<^verbatim>\<open>.png\<close>, each file holds the decoded bytes of its part, and the two
  names differ, whatever the clock says.
\<close>
theorem C7_two_png_files:
  assumes "map_of r ''candidates'' = Some (JArr [JObj c0, JObj c1])"
    and "map_of c0 ''content'' = Some (JObj t0)"
    and "map_of t0 ''parts'' = Some (JArr (pre0 @ JObj p0 # suf0))"
    and "\<forall>q\<in>set (pre0 @ suf0). py_in ''inline_data'' q = Inr False"
    and "map_of p0 ''inline_data'' = Some (JObj i0)"
    and "map_of i0 ''mime_type'' = Some (JStr ''image/png'')"
    and "map_of i0 ''data'' = Some d0"
    and "b64decode d0 = Inr bs0"
    and "map_of c1 ''content'' = Some (JObj t1)"
    and "map_of t1 ''parts'' = Some (JArr (pre1 @ JObj p1 # suf1))"
    and "\<forall>q\<in>set (pre1 @ suf1). py_in ''inline_data'' q = Inr False"
    and "map_of p1 ''inline_data'' = Some (JObj i1)"
    and "map_of i1 ''mime_type'' = Some (JStr ''image/png'')"
    and "map_of i1 ''data'' = Some d1"
    and "b64decode d1 = Inr bs1"
    and "guess_extension env ''image/png'' = Some ''.png''"
    and "can_write env (''output_'' @ now env (clock w) @ ''_c0_p''
                          @ str_nat (length pre0) @ ''.png'')"
    and "can_write env (''output_'' @ now env (Suc (clock w)) @ ''_c1_p''
                          @ str_nat (length pre1) @ ''.png'')"
  shows "fst (write_outputs env (JObj r) w) = Inr ()
     \<and> written (trace (snd (write_outputs env (JObj r) w))) =
         written (trace w) @
           [(''output_'' @ now env (clock w) @ ''_c0_p'' @ str_nat (length pre0) @ ''.png'', bs0),
            (''output_'' @ now env (Suc (clock w)) @ ''_c1_p'' @ str_nat (length pre1) @ ''.png'',
             bs1)]
     \<and> ''output_'' @ now env (clock w) @ ''_c0_p'' @ str_nat (length pre0) @ ''.png''
         \<noteq> ''output_'' @ now env (Suc (clock w)) @ ''_c1_p'' @ str_nat (length pre1) @ ''.png''"
proof -
  let ?f0 = "''output_'' @ now env (clock w) @ ''_c0_p'' @ str_nat (length pre0) @ ''.png''"
  let ?f1 = "''output_'' @ now env (Suc (clock w)) @ ''_c1_p'' @ str_nat (length pre1) @ ''.png''"
  let ?w0 = "w\<lparr>trace := trace w @ [WriteFile ?f0 bs0, Print (''Binary output written to: '' @ ?f0)],
                clock := Suc (clock w)\<rparr>"
  let ?w1 = "?w0\<lparr>trace := trace ?w0 @ [WriteFile ?f1 bs1, Print (''Binary output written to: '' @ ?f1)],
                  clock := Suc (clock ?w0)\<rparr>"
  have first: "write_candidate env 0 (JObj c0) w = (Inr (), ?w0)"
    using write_parts_one_png [OF assms(4,5,6,7,8,16), of w 0] assms(17)
    by (simp add: write_candidate_parts [OF assms(2,3)] str_nat_digit)
  have second: "write_candidate env 1 (JObj c1) ?w0 = (Inr (), ?w1)"
    using write_parts_one_png [OF assms(11,12,13,14,15,16), of ?w0 1] assms(18)
    by (simp add: write_candidate_parts [OF assms(9,10)] str_nat_digit)
  have run: "write_outputs env (JObj r) w = (Inr (), ?w1)"
    by (simp only: write_outputs_two [OF assms(1)] io_bind_def first second prod.case sum.case)
  have "fst (write_outputs env (JObj r) w) = Inr ()"
    by (simp add: run)
  moreover have "written (trace (snd (write_outputs env (JObj r) w))) =
      written (trace w) @ [(?f0, bs0), (?f1, bs1)]"
    by (simp add: run written_append)
  moreover have "?f0 \<noteq> ?f1"
    by (rule names_differ)
  ultimately show ?thesis
    by blast
qed

text \<open>
  Claim C7 on the sample answer, with a clock that stands still: the inline part is the
  third part of the first candidate and the first part of the second.
\<close>

theorem C7_two_png_files_witness:
  "fst (write_outputs env_demo result_two_png world0) = Inr ()
   \<and> written (trace (snd (write_outputs env_demo result_two_png world0))) =
       [(''output_20240101_120000_000001_c0_p2.png'', [77, 97, 110]),
        (''output_20240101_120000_000001_c1_p0.png'', [77])]
   \<and> ''output_20240101_120000_000001_c0_p2.png'' \<noteq> ''output_20240101_120000_000001_c1_p0.png''"
proof -
  let ?i0 = "[(''mime_type'', JStr ''image/png''), (''data'', JStr ''TWFu'')]"
  let ?i1 = "[(''mime_type'', JStr ''image/png''), (''data'', JStr ''TQ=='')]"
  let ?p0 = "[(''inline_data'', JObj ?i0)]"
  let ?p1 = "[(''inline_data'', JObj ?i1)]"
  let ?pre0 = "[JObj [(''text'', JStr ''Here is'')], JObj [(''text'', JStr ''the first image.'')]]"
  let ?suf1 = "[JObj [(''text'', JStr ''That was the second.'')]]"
  let ?t0 = "[(''parts'', JArr (?pre0 @ JObj ?p0 # [])), (''role'', JStr ''model'')]"
  let ?t1 = "[(''parts'', JArr ([] @ JObj ?p1 # ?suf1)), (''role'', JStr ''model'')]"
  let ?c0 = "[(''content'', JObj ?t0), (''finishReason'', JStr ''STOP'')]"
  let ?c1 = "[(''content'', JObj ?t1), (''finishReason'', JStr ''STOP'')]"
  let ?r = "[(''candidates'', JArr [JObj ?c0, JObj ?c1]), (''modelVersion'', JStr ''gemini-2.5-pro'')]"
  have r: "result_two_png = JObj ?r"
    by (simp add: result_two_png_def)
  have now: "now env_demo k = ''20240101_120000_000001''" for k
    by (simp add: env_demo_def)
  have shape0:
    "map_of ?r ''candidates'' = Some (JArr [JObj ?c0, JObj ?c1])"
    "map_of ?c0 ''content'' = Some (JObj ?t0)"
    "map_of ?t0 ''parts'' = Some (JArr (?pre0 @ JObj ?p0 # []))"
    "\<forall>q\<in>set (?pre0 @ []). py_in ''inline_data'' q = Inr False"
    "map_of ?p0 ''inline_data'' = Some (JObj ?i0)"
    "map_of ?i0 ''mime_type'' = Some (JStr ''image/png'')"
    "map_of ?i0 ''data'' = Some (JStr ''TWFu'')"
    by simp_all
  have shape1:
    "map_of ?c1 ''content'' = Some (JObj ?t1)"
    "map_of ?t1 ''parts'' = Some (JArr ([] @ JObj ?p1 # ?suf1))"
    "\<forall>q\<in>set ([] @ ?suf1). py_in ''inline_data'' q = Inr False"
    "map_of ?p1 ''inline_data'' = Some (JObj ?i1)"
    "map_of ?i1 ''mime_type'' = Some (JStr ''image/png'')"
    "map_of ?i1 ''data'' = Some (JStr ''TQ=='')"
    by simp_all
  have world: "guess_extension env_demo ''image/png'' = Some ''.png''"
    "can_write env_demo (''output_'' @ now env_demo (clock world0) @ ''_c0_p''
                           @ str_nat (length ?pre0) @ ''.png'')"
    "can_write env_demo (''output_'' @ now env_demo (Suc (clock world0)) @ ''_c1_p''
                           @ str_nat (length ([] :: json list)) @ ''.png'')"
    by (simp_all add: env_demo_def)
  show ?thesis
    using C7_two_png_files [OF shape0 b64_samples(1) shape1 b64_samples(2) world]
    by (simp add: r now world0_simps str_nat_digit str_nat_two)
qed

section \<open>Too few arguments\<close>

text \<open>
  Claim C8.  With fewer than three arguments after the name of the script, the run
  prints the usage line and exits with status 1; it makes no request and opens no file.
\<close>

theorem C8_usage:
  "length argv < 4 \<Longrightarrow>
     main env argv w = (Inl (SystemExit 1), w\<lparr>trace := trace w @ [Print usage]\<rparr>)
     \<and> exit_status (fst (main env argv w)) = 1
     \<and> posts (trace (snd (main env argv w))) = posts (trace w)
     \<and> opened (trace (snd (main env argv w))) = opened (trace w)"
  by (simp add: main_def io_defs posts_append opened_append)

text \<open>Claim C8 on a command line with two arguments.\<close>

theorem C8_usage_witness:
  "length [''generateResponse-gemini.py'', ''64'', ''system.txt''] < 4
   \<and> main env_demo [''generateResponse-gemini.py'', ''64'', ''system.txt''] world0 =
       (Inl (SystemExit 1), \<lparr>trace = [Print usage], clock = 0\<rparr>)
   \<and> posts (trace (snd (main env_demo [''generateResponse-gemini.py'', ''64'', ''system.txt''] world0))) = []
   \<and> opened (trace (snd (main env_demo [''generateResponse-gemini.py'', ''64'', ''system.txt''] world0))) = []"
  using C8_usage [of "[''generateResponse-gemini.py'', ''64'', ''system.txt'']" env_demo world0]
  by (simp add: world0_def)

end
